theory Spec2Isabelle
  imports Complex_Main "HOL-Library.Word"
begin

section \<open>Python values used by the provider layer\<close>

text \<open>
  Python \<open>str\<close> values are modelled as \<open>string\<close>; a character stands for a code point
  below 256. Python \<open>float\<close> values are modelled as real numbers (a literal such as
  \<open>0.7\<close> stands for the number it denotes), Python \<open>int\<close> as \<open>int\<close>, and \<open>bytes\<close> as a
  list of 8-bit words.
\<close>

type_synonym bytes = "8 word list"

text \<open>An instance of \<open>Exception\<close>, by its class name and the text \<open>str(e)\<close> gives.\<close>

datatype py_exception = PyException (exc_class: string) (exc_str: string)

text \<open>
  What a call of a wrapped function does: it returns a value, raises an instance of
  \<open>Exception\<close>, or raises a \<open>BaseException\<close> that is not an \<open>Exception\<close>
  (\<open>KeyboardInterrupt\<close>, \<open>SystemExit\<close>), which \<open>except Exception\<close> lets through.
\<close>

datatype 'a outcome = Returned 'a | Raised py_exception | Aborted string

text \<open>The errors that leave the functions of \<open>providers/\<close>.\<close>

datatype py_error =
    RuntimeError string
  | ValueError string
  | ImportError string
  | ConnectionError string
  | OverflowError string
  | OSError string
  | BaseExc string
  | OtherExc py_exception

text \<open>\<open>str(n)\<close> for an integer: decimal digits, with a minus sign when negative.\<close>

definition digit_char :: "nat \<Rightarrow> char" where
  "digit_char d = ''0123456789'' ! d"

function str_nat :: "nat \<Rightarrow> string" where
  "str_nat n = (if n < 10 then [digit_char n] else str_nat (n div 10) @ [digit_char (n mod 10)])"
  by pat_completeness auto
termination
  by (relation "measure (\<lambda>n. n)") auto

declare str_nat.simps [simp del]

definition str_int :: "int \<Rightarrow> string" where
  "str_int i = (if i < 0 then CHR ''-'' # str_nat (nat (- i)) else str_nat (nat i))"

text \<open>\<open>str(x)\<close> for a variable that holds an exception or \<open>None\<close>.\<close>

fun str_exc_opt :: "py_exception option \<Rightarrow> string" where
  "str_exc_opt None = ''None''"
| "str_exc_opt (Some e) = exc_str e"

text \<open>\<open>a or b\<close> on strings: the empty string is false.\<close>

definition or_str :: "string \<Rightarrow> string \<Rightarrow> string" where
  "or_str a b = (if a = [] then b else a)"

section \<open>String operations of Python\<close>

text \<open>\<open>c.isspace()\<close> for a code point below 256: what \<open>str.strip()\<close> removes.\<close>

definition is_space :: "char \<Rightarrow> bool" where
  "is_space c = (of_char c \<in> {9::nat, 10, 11, 12, 13, 28, 29, 30, 31, 32, 133, 160})"

text \<open>\<open>s.strip(chars)\<close>, with the characters to remove given as a predicate.\<close>

definition strip_where :: "(char \<Rightarrow> bool) \<Rightarrow> string \<Rightarrow> string" where
  "strip_where P s = rev (dropWhile P (rev (dropWhile P s)))"

definition strip :: "string \<Rightarrow> string" where
  "strip s = strip_where is_space s"

definition strip_chars :: "string \<Rightarrow> string \<Rightarrow> string" where
  "strip_chars chars s = strip_where (\<lambda>c. c \<in> set chars) s"

definition rstrip_chars :: "string \<Rightarrow> string \<Rightarrow> string" where
  "rstrip_chars chars s = rev (dropWhile (\<lambda>c. c \<in> set chars) (rev s))"

text \<open>The index of a character in a string, if it occurs there.\<close>

fun index_of :: "char \<Rightarrow> string \<Rightarrow> nat option" where
  "index_of c [] = None"
| "index_of c (x # xs) =
     (if c = x then Some 0 else (case index_of c xs of None \<Rightarrow> None | Some i \<Rightarrow> Some (Suc i)))"

text \<open>
  \<open>s.lower()\<close> for code points below 256: the ASCII capitals and the Latin-1 capitals
  (\<open>0xC0\<close> to \<open>0xDE\<close>, the multiplication sign \<open>0xD7\<close> apart) become the letters 32 places
  further on.
\<close>

definition capitals :: string where
  "capitals =
     ''ABCDEFGHIJKLMNOPQRSTUVWXYZ'' @
     [CHR 0xC0, CHR 0xC1, CHR 0xC2, CHR 0xC3, CHR 0xC4, CHR 0xC5, CHR 0xC6, CHR 0xC7,
      CHR 0xC8, CHR 0xC9, CHR 0xCA, CHR 0xCB, CHR 0xCC, CHR 0xCD, CHR 0xCE, CHR 0xCF,
      CHR 0xD0, CHR 0xD1, CHR 0xD2, CHR 0xD3, CHR 0xD4, CHR 0xD5, CHR 0xD6, CHR 0xD8,
      CHR 0xD9, CHR 0xDA, CHR 0xDB, CHR 0xDC, CHR 0xDD, CHR 0xDE]"

definition smalls :: string where
  "smalls =
     ''abcdefghijklmnopqrstuvwxyz'' @
     [CHR 0xE0, CHR 0xE1, CHR 0xE2, CHR 0xE3, CHR 0xE4, CHR 0xE5, CHR 0xE6, CHR 0xE7,
      CHR 0xE8, CHR 0xE9, CHR 0xEA, CHR 0xEB, CHR 0xEC, CHR 0xED, CHR 0xEE, CHR 0xEF,
      CHR 0xF0, CHR 0xF1, CHR 0xF2, CHR 0xF3, CHR 0xF4, CHR 0xF5, CHR 0xF6, CHR 0xF8,
      CHR 0xF9, CHR 0xFA, CHR 0xFB, CHR 0xFC, CHR 0xFD, CHR 0xFE]"

definition lower_char :: "char \<Rightarrow> char" where
  "lower_char c = (case index_of c capitals of None \<Rightarrow> c | Some i \<Rightarrow> smalls ! i)"

definition lower :: "string \<Rightarrow> string" where
  "lower s = map lower_char s"

text \<open>\<open>s.upper()\<close>, for ASCII text (it is applied to registered provider names only).\<close>

definition upper_char :: "char \<Rightarrow> char" where
  "upper_char c =
     (case index_of c (take 26 smalls) of None \<Rightarrow> c | Some i \<Rightarrow> capitals ! i)"

definition upper :: "string \<Rightarrow> string" where
  "upper s = map upper_char s"

text \<open>\<open>s.startswith(p)\<close> and the substring test \<open>m in s\<close>.\<close>

fun startswith :: "string \<Rightarrow> string \<Rightarrow> bool" where
  "startswith s [] = True"
| "startswith [] (p # ps) = False"
| "startswith (c # cs) (p # ps) = (c = p \<and> startswith cs ps)"

fun str_in :: "string \<Rightarrow> string \<Rightarrow> bool" where
  "str_in m [] = (m = [])"
| "str_in m (c # cs) = (startswith (c # cs) m \<or> str_in m cs)"

text \<open>\<open>sep.join(xs)\<close>.\<close>

fun join :: "string \<Rightarrow> string list \<Rightarrow> string" where
  "join sep [] = []"
| "join sep [x] = x"
| "join sep (x # y # ys) = x @ sep @ join sep (y # ys)"

text \<open>Truth value of an optional string: \<open>None\<close> and the empty string are false.\<close>

fun truthy :: "string option \<Rightarrow> bool" where
  "truthy None = False"
| "truthy (Some s) = (s \<noteq> [])"

section \<open>Base64 (\<open>base64.standard_b64encode\<close>, RFC 4648)\<close>

definition b64_alphabet :: string where
  "b64_alphabet =
     ''ABCDEFGHIJKLMNOPQRSTUVWXYZabcdefghijklmnopqrstuvwxyz0123456789+/''"

definition b64_char :: "nat \<Rightarrow> char" where
  "b64_char i = b64_alphabet ! i"

text \<open>
  Three bytes make a 24-bit group, cut into four 6-bit indices; a final group of one or
  two bytes is filled with zero bits and padded with \<open>=\<close>.
\<close>

fun b64encode :: "bytes \<Rightarrow> string" where
  "b64encode [] = []"
| "b64encode [a] =
     (let n = unat a * 65536
      in [b64_char (n div 262144), b64_char (n div 4096 mod 64), CHR ''='', CHR ''=''])"
| "b64encode [a, b] =
     (let n = unat a * 65536 + unat b * 256
      in [b64_char (n div 262144), b64_char (n div 4096 mod 64), b64_char (n div 64 mod 64),
          CHR ''=''])"
| "b64encode (a # b # c # rest) =
     (let n = unat a * 65536 + unat b * 256 + unat c
      in [b64_char (n div 262144), b64_char (n div 4096 mod 64), b64_char (n div 64 mod 64),
          b64_char (n mod 64)] @ b64encode rest)"

text \<open>The index of a character in the alphabet, if it has one.\<close>

definition b64_index :: "char \<Rightarrow> nat option" where
  "b64_index c = index_of c b64_alphabet"

text \<open>
  Decoding of padded base64 text: groups of four characters; only the last group may end
  in one or two \<open>=\<close>. Text that is not well-formed gives \<open>None\<close>.
\<close>

fun b64decode :: "string \<Rightarrow> bytes option" where
  "b64decode [] = Some []"
| "b64decode (c1 # c2 # c3 # c4 # rest) =
     (case (b64_index c1, b64_index c2) of
        (Some i1, Some i2) \<Rightarrow>
          (if c3 = CHR ''='' \<and> c4 = CHR ''='' \<and> rest = [] then
             (let n = i1 * 262144 + i2 * 4096 in Some [of_nat (n div 65536)])
           else (case b64_index c3 of
              None \<Rightarrow> None
            | Some i3 \<Rightarrow>
                (if c4 = CHR ''='' \<and> rest = [] then
                   (let n = i1 * 262144 + i2 * 4096 + i3 * 64
                    in Some [of_nat (n div 65536), of_nat (n div 256 mod 256)])
                 else (case b64_index c4 of
                    None \<Rightarrow> None
                  | Some i4 \<Rightarrow>
                      (let n = i1 * 262144 + i2 * 4096 + i3 * 64 + i4
                       in (case b64decode rest of
                             None \<Rightarrow> None
                           | Some bs \<Rightarrow>
                               Some (of_nat (n div 65536) # of_nat (n div 256 mod 256) #
                                     of_nat (n mod 256) # bs)))))))
      | _ \<Rightarrow> None)"
| "b64decode _ = None"

section \<open>\<open>base.py\<close>: \<open>ProviderConfig\<close>\<close>

record ProviderConfig =
  api_key :: string
  api_base :: string
  vision_model :: string
  language_model :: string
  max_tokens :: int
  temperature :: real
  top_p :: real
  max_retries :: int
  retry_delay :: real

text \<open>The dataclass defaults (the \<open>extra\<close> dictionary, which nothing reads, is left out).\<close>

definition default_config :: ProviderConfig where
  "default_config =
     \<lparr> api_key = [], api_base = [], vision_model = [], language_model = [],
       max_tokens = 4096, temperature = 0.7, top_p = 0.9, max_retries = 3,
       retry_delay = 1 \<rparr>"

text \<open>\<open>__post_init__\<close>: three checks in the source's order, each resetting one field.\<close>

definition post_init :: "ProviderConfig \<Rightarrow> ProviderConfig" where
  "post_init c =
     (let c1 = (if max_tokens c < 1 then c\<lparr>max_tokens := 4096\<rparr> else c);
          c2 = (if \<not> (0 \<le> temperature c1 \<and> temperature c1 \<le> 2)
                then c1\<lparr>temperature := 0.7\<rparr> else c1);
          c3 = (if \<not> (0 \<le> top_p c2 \<and> top_p c2 \<le> 1)
                then c2\<lparr>top_p := 0.9\<rparr> else c2)
      in c3)"

section \<open>\<open>base.py\<close>: \<open>AIProvider._retry_with_backoff\<close>\<close>

text \<open>
  What the retry loop does besides calling the wrapped function is recorded in a log:
  \<open>Invoked\<close> marks one call of the wrapped function, \<open>Printed k n t s\<close> the progress line
  "Retry k/n after t s: s...", and \<open>Slept t\<close> a \<open>time.sleep(t)\<close>.
\<close>

datatype event = Invoked | Printed int int real string | Slept real

text \<open>
  \<open>time.sleep\<close> keeps the length as a signed 64-bit count of nanoseconds: it raises
  \<open>ValueError\<close> on a negative length and \<open>OverflowError\<close> on one beyond that count (about
  \<open>9.22e9\<close> seconds; the rounding of \<open>float\<close> at the very limit is not modelled).
\<close>

definition sleep_limit :: real where
  "sleep_limit = 2 ^ 63 / 10 ^ 9"

text \<open>
  The wrapped function acts on a world \<open>'w\<close> (whatever it reads and changes) and gives an
  outcome. An error of \<open>time.sleep\<close>, raised inside the \<open>except\<close> block, leaves the loop.
\<close>

function retry_loop ::
  "ProviderConfig \<Rightarrow> string \<Rightarrow> ('w \<Rightarrow> 'a outcome \<times> 'w) \<Rightarrow> int \<Rightarrow> py_exception option \<Rightarrow>
     'w \<Rightarrow> event list \<Rightarrow> (py_error + 'a) \<times> 'w \<times> event list" where
  "retry_loop cfg self_name func attempt last_exception w tr =
     (if attempt < max_retries cfg then
        (case func w of
           (Returned v, w') \<Rightarrow> (Inr v, w', tr @ [Invoked])
         | (Aborted b, w') \<Rightarrow> (Inl (BaseExc b), w', tr @ [Invoked])
         | (Raised e, w') \<Rightarrow>
             (if attempt < max_retries cfg - 1 then
                (let wait_time = retry_delay cfg * 2 ^ nat attempt;
                     tr' = tr @ [Invoked,
                       Printed (attempt + 1) (max_retries cfg) wait_time (take 50 (exc_str e))]
                 in if wait_time < 0
                    then (Inl (ValueError ''sleep length must be non-negative''), w', tr')
                    else if sleep_limit < wait_time
                    then (Inl (OverflowError ''timestamp too large to convert to C _PyTime_t''),
                          w', tr')
                    else retry_loop cfg self_name func (attempt + 1) (Some e) w'
                           (tr' @ [Slept wait_time]))
              else retry_loop cfg self_name func (attempt + 1) (Some e) w' (tr @ [Invoked])))
      else
        (Inl (RuntimeError (''All '' @ str_int (max_retries cfg) @ '' retries failed for ''
                @ self_name @ '': '' @ str_exc_opt last_exception)), w, tr))"
  by pat_completeness auto
termination
  by (relation "measure (\<lambda>(cfg, self_name, func, attempt, last_exception, w, tr).
        nat (max_retries cfg - attempt))") auto

declare retry_loop.simps [simp del]

definition retry_with_backoff ::
  "ProviderConfig \<Rightarrow> string \<Rightarrow> ('w \<Rightarrow> 'a outcome \<times> 'w) \<Rightarrow> 'w \<Rightarrow>
     (py_error + 'a) \<times> 'w \<times> event list" where
  "retry_with_backoff cfg self_name func w = retry_loop cfg self_name func 0 None w []"

definition invocations :: "event list \<Rightarrow> nat" where
  "invocations tr = length (filter (\<lambda>e. e = Invoked) tr)"


section \<open>Vendor requests\<close>

text \<open>
  What a provider hands to its vendor transport. The keyword arguments and dictionary
  entries of the source are the fields; an entry the source leaves out is \<open>None\<close>.
\<close>

datatype content_part =
    ImageUrlPart (url: string) (detail: "string option")
  | ImagePart (source_type: string) (media_type: string) (data: string)
  | TextPart string

datatype message_content = TextContent string | PartsContent "content_part list"

datatype message = Message (role: string) (content: message_content)

datatype gemini_part = GeminiImage (mime_type: string) (image_bytes: bytes) | GeminiText string

text \<open>The object stored in \<open>self._client\<close>.\<close>

datatype client =
    OpenAIClient (client_api_key: string) (client_base_url: "string option")
  | AnthropicClient string
  | OllamaReady

datatype request =
    ChatCompletionsCreate client string "message list" int real "real option"
  | MessagesCreate client string int "message list" real "string option"
  | GenerateContent string "gemini_part list" real "real option" int
  | OllamaPost string string string "string list option" bool real "real option" int
      "string option"

text \<open>
  The fields, in the order of the constructors' arguments:
  \<^item> \<open>ChatCompletionsCreate\<close> (\<open>client.chat.completions.create\<close>): client, \<open>model\<close>,
    \<open>messages\<close>, \<open>max_tokens\<close>, \<open>temperature\<close>, \<open>top_p\<close>;
  \<^item> \<open>MessagesCreate\<close> (\<open>client.messages.create\<close>): client, \<open>model\<close>, \<open>max_tokens\<close>,
    \<open>messages\<close>, \<open>temperature\<close>, \<open>system\<close>;
  \<^item> \<open>GenerateContent\<close> (\<open>GenerativeModel(model).generate_content\<close>): model name, contents,
    and the generation config's \<open>temperature\<close>, \<open>top_p\<close>, \<open>max_output_tokens\<close>;
  \<^item> \<open>OllamaPost\<close> (\<open>_make_request\<close>): URL, then the JSON body's \<open>model\<close>, \<open>prompt\<close>,
    \<open>images\<close>, \<open>stream\<close>, \<open>options.temperature\<close>, \<open>options.top_p\<close>, \<open>options.num_predict\<close>,
    \<open>system\<close>.
\<close>

fun request_temperature :: "request \<Rightarrow> real" where
  "request_temperature (ChatCompletionsCreate c m msgs mt t tp) = t"
| "request_temperature (MessagesCreate c m mt msgs t sys) = t"
| "request_temperature (GenerateContent m parts t tp mt) = t"
| "request_temperature (OllamaPost u m p imgs st t tp np sys) = t"

text \<open>
  What a request says about its images: the URLs of its \<open>image_url\<close> parts, the media
  types it names (\<open>media_type\<close> of an Anthropic image source, \<open>mime_type\<close> of a Gemini
  image part), and the base64 texts it carries as such (\<open>data\<close> of an Anthropic image
  source, \<open>images\<close> of an Ollama body).
\<close>

fun part_image_urls :: "content_part \<Rightarrow> string list" where
  "part_image_urls (ImageUrlPart u d) = [u]"
| "part_image_urls (ImagePart st mt d) = []"
| "part_image_urls (TextPart t) = []"

fun part_media_types :: "content_part \<Rightarrow> string list" where
  "part_media_types (ImageUrlPart u d) = []"
| "part_media_types (ImagePart st mt d) = [mt]"
| "part_media_types (TextPart t) = []"

fun part_image_data :: "content_part \<Rightarrow> string list" where
  "part_image_data (ImageUrlPart u d) = []"
| "part_image_data (ImagePart st mt d) = [d]"
| "part_image_data (TextPart t) = []"

fun message_parts :: "message \<Rightarrow> content_part list" where
  "message_parts (Message r (TextContent t)) = []"
| "message_parts (Message r (PartsContent ps)) = ps"

fun gemini_media_types :: "gemini_part \<Rightarrow> string list" where
  "gemini_media_types (GeminiImage mt d) = [mt]"
| "gemini_media_types (GeminiText t) = []"

fun request_image_urls :: "request \<Rightarrow> string list" where
  "request_image_urls (ChatCompletionsCreate c m msgs mt t tp) =
     concat (map part_image_urls (concat (map message_parts msgs)))"
| "request_image_urls (MessagesCreate c m mt msgs t sys) =
     concat (map part_image_urls (concat (map message_parts msgs)))"
| "request_image_urls (GenerateContent m parts t tp mt) = []"
| "request_image_urls (OllamaPost u m p imgs st t tp np sys) = []"

fun request_media_types :: "request \<Rightarrow> string list" where
  "request_media_types (ChatCompletionsCreate c m msgs mt t tp) =
     concat (map part_media_types (concat (map message_parts msgs)))"
| "request_media_types (MessagesCreate c m mt msgs t sys) =
     concat (map part_media_types (concat (map message_parts msgs)))"
| "request_media_types (GenerateContent m parts t tp mt) =
     concat (map gemini_media_types parts)"
| "request_media_types (OllamaPost u m p imgs st t tp np sys) = []"

fun request_image_data :: "request \<Rightarrow> string list" where
  "request_image_data (ChatCompletionsCreate c m msgs mt t tp) =
     concat (map part_image_data (concat (map message_parts msgs)))"
| "request_image_data (MessagesCreate c m mt msgs t sys) =
     concat (map part_image_data (concat (map message_parts msgs)))"
| "request_image_data (GenerateContent m parts t tp mt) = []"
| "request_image_data (OllamaPost u m p imgs st t tp np sys) =
     (case imgs of None \<Rightarrow> [] | Some xs \<Rightarrow> xs)"

section \<open>The surroundings of a provider\<close>

text \<open>What the connectivity check of Ollama (\<open>GET <base>/api/tags\<close>) comes back with.\<close>

datatype probe = Status int | URLError string | ProbeRaised py_exception

text \<open>
  The surroundings: which modules can be imported, what the Ollama endpoint at a base URL
  answers, and what the vendor answers to a request, given all requests sent so far (the
  last one is the request being answered). Decoding the vendor's response object into
  text, which the vendor SDKs and \<open>_make_request\<close> do, is part of \<open>respond\<close>.
\<close>

record environment =
  importable :: "string \<Rightarrow> bool"
  ollama_tags :: "string \<Rightarrow> probe"
  respond :: "request list \<Rightarrow> string outcome"

record world =
  sent :: "request list"

definition send :: "environment \<Rightarrow> request \<Rightarrow> world \<Rightarrow> string outcome \<times> world" where
  "send env r w = (respond env (sent w @ [r]), w\<lparr>sent := sent w @ [r]\<rparr>)"

text \<open>Using an attribute of \<open>None\<close> inside the wrapped call raises \<open>AttributeError\<close> there.\<close>

definition no_attribute :: "string \<Rightarrow> world \<Rightarrow> string outcome \<times> world" where
  "no_attribute what w = (Raised (PyException ''AttributeError'' what), w)"

section \<open>The providers\<close>

datatype provider_kind = Qwen | Gemini | OpenAI | Anthropic | Ollama

text \<open>
  A provider object: its class, its config, \<open>_client\<close>, and the attributes that
  \<open>_initialize_client\<close> creates (\<open>_base_url\<close> of Ollama; \<open>_vision_model\<close> and
  \<open>_language_model\<close> of Gemini, by model name, with the key given to \<open>genai.configure\<close>).
\<close>

record provider =
  kind :: provider_kind
  config :: ProviderConfig
  client :: "client option"
  base_url_attr :: "string option"
  genai_key :: "string option"
  vision_model_attr :: "string option"
  language_model_attr :: "string option"

text \<open>\<open>AIProvider.__init__\<close>.\<close>

definition new_provider :: "provider_kind \<Rightarrow> ProviderConfig \<Rightarrow> provider" where
  "new_provider k cfg =
     \<lparr> kind = k, config = cfg, client = None, base_url_attr = None, genai_key = None,
       vision_model_attr = None, language_model_attr = None \<rparr>"

fun name :: "provider_kind \<Rightarrow> string" where
  "name Qwen = ''qwen''"
| "name Gemini = ''gemini''"
| "name OpenAI = ''openai''"
| "name Anthropic = ''anthropic''"
| "name Ollama = ''ollama''"

text \<open>\<open>any(m in s for m in ms)\<close>.\<close>

definition any_in :: "string list \<Rightarrow> string \<Rightarrow> bool" where
  "any_in ms s = list_ex (\<lambda>m. str_in m s) ms"

definition openai_supports_vision :: "provider \<Rightarrow> bool" where
  "openai_supports_vision p =
     any_in [''gpt-4o'', ''gpt-4-turbo'', ''gpt-4-vision''] (lower (vision_model (config p)))"

definition ollama_supports_vision :: "provider \<Rightarrow> bool" where
  "ollama_supports_vision p =
     any_in [''llava'', ''bakllava'', ''moondream''] (lower (vision_model (config p)))"

definition supports_vision :: "provider \<Rightarrow> bool" where
  "supports_vision p =
     (case kind p of
        Qwen \<Rightarrow> True
      | Gemini \<Rightarrow> True
      | OpenAI \<Rightarrow> openai_supports_vision p
      | Anthropic \<Rightarrow> True
      | Ollama \<Rightarrow> ollama_supports_vision p)"

subsection \<open>\<open>_initialize_client\<close>\<close>

text \<open>
  Each gives the error raised, if any, and the provider as the call leaves it (Ollama
  stores \<open>_base_url\<close> before it checks the connection; Gemini never assigns \<open>_client\<close>).
\<close>

definition qwen_initialize_client :: "environment \<Rightarrow> provider \<Rightarrow> py_error option \<times> provider" where
  "qwen_initialize_client env p =
     (if \<not> importable env ''openai'' then
        (Some (ImportError
           ''openai package is required for Qwen provider. Install with: pip install openai''), p)
      else
        (let api_base' = or_str (api_base (config p))
                           ''https://dashscope.aliyuncs.com/compatible-mode/v1''
         in (None, p\<lparr>client := Some (OpenAIClient (api_key (config p)) (Some api_base'))\<rparr>)))"

definition openai_initialize_client :: "environment \<Rightarrow> provider \<Rightarrow> py_error option \<times> provider" where
  "openai_initialize_client env p =
     (if \<not> importable env ''openai'' then
        (Some (ImportError
           ''openai package is required for OpenAI provider. Install with: pip install openai''), p)
      else (None, p\<lparr>client := Some (OpenAIClient (api_key (config p)) None)\<rparr>))"

definition anthropic_initialize_client ::
  "environment \<Rightarrow> provider \<Rightarrow> py_error option \<times> provider" where
  "anthropic_initialize_client env p =
     (if \<not> importable env ''anthropic'' then
        (Some (ImportError
           ''anthropic package is required for Anthropic provider. Install with: pip install anthropic''),
         p)
      else (None, p\<lparr>client := Some (AnthropicClient (api_key (config p)))\<rparr>))"

definition gemini_initialize_client :: "environment \<Rightarrow> provider \<Rightarrow> py_error option \<times> provider" where
  "gemini_initialize_client env p =
     (if \<not> importable env ''google.generativeai'' then
        (Some (ImportError
           ''google-generativeai package is required for Gemini provider. Install with: pip install google-generativeai''),
         p)
      else
        (None, p\<lparr>genai_key := Some (api_key (config p)),
                  vision_model_attr := Some (or_str (vision_model (config p)) ''gemini-2.0-flash''),
                  language_model_attr :=
                    Some (or_str (language_model (config p)) ''gemini-2.0-flash'')\<rparr>))"

definition ollama_initialize_client :: "environment \<Rightarrow> provider \<Rightarrow> py_error option \<times> provider" where
  "ollama_initialize_client env p =
     (let base_url = or_str (api_base (config p)) ''http://localhost:11434'';
          base_url' = rstrip_chars ''/'' base_url;
          p1 = p\<lparr>base_url_attr := Some base_url'\<rparr>
      in (case ollama_tags env base_url' of
            Status st \<Rightarrow>
              (if st \<noteq> 200 then (Some (ConnectionError ''Ollama is not responding''), p1)
               else (None, p1\<lparr>client := Some OllamaReady\<rparr>))
          | URLError e \<Rightarrow>
              (Some (ConnectionError
                 (''Cannot connect to Ollama at '' @ base_url' @ ''. ''
                  @ ''Make sure Ollama is running: ollama serve'' @ [CHR 0x0A]
                  @ ''Error: '' @ e)), p1)
          | ProbeRaised e \<Rightarrow> (Some (OtherExc e), p1)))"

text \<open>\<open>if self._client is None: self._initialize_client()\<close>, with the provider's own method.\<close>

definition ensure_client ::
  "(environment \<Rightarrow> provider \<Rightarrow> py_error option \<times> provider) \<Rightarrow> environment \<Rightarrow> provider \<Rightarrow>
     py_error option \<times> provider" where
  "ensure_client init env p = (if client p = None then init env p else (None, p))"

text \<open>The method \<open>_initialize_client\<close> of a provider, by its class.\<close>

definition initialize_client :: "environment \<Rightarrow> provider \<Rightarrow> py_error option \<times> provider" where
  "initialize_client env p =
     (case kind p of
        Qwen \<Rightarrow> qwen_initialize_client env p
      | Gemini \<Rightarrow> gemini_initialize_client env p
      | OpenAI \<Rightarrow> openai_initialize_client env p
      | Anthropic \<Rightarrow> anthropic_initialize_client env p
      | Ollama \<Rightarrow> ollama_initialize_client env p)"

text \<open>
  The states a provider object can be in: when \<open>_client\<close> is set, the attributes that
  \<open>_initialize_client\<close> sets before it are there too. A new provider is in such a state
  and \<open>chat\<close> and \<open>vision\<close> keep it so.
\<close>

definition consistent :: "provider \<Rightarrow> bool" where
  "consistent p =
     (client p = None \<or>
      (case kind p of
         Ollama \<Rightarrow> base_url_attr p \<noteq> None
       | Gemini \<Rightarrow> vision_model_attr p \<noteq> None \<and> language_model_attr p \<noteq> None
       | _ \<Rightarrow> True))"

text \<open>
  A call of \<open>chat\<close> or \<open>vision\<close> gives the result or error, the provider and the world as
  the call leaves them, and the retry log. \<open>run_call\<close> is the last line of each method:
  \<open>return self._retry_with_backoff(_call)\<close>.
\<close>

type_synonym call_result = "(py_error + string) \<times> provider \<times> world \<times> event list"

definition run_call ::
  "provider \<Rightarrow> (world \<Rightarrow> string outcome \<times> world) \<Rightarrow> world \<Rightarrow> call_result" where
  "run_call p call w =
     (case retry_with_backoff (config p) (name (kind p)) call w of
        (res, w', tr) \<Rightarrow> (res, p, w', tr))"

subsection \<open>\<open>chat\<close>\<close>

text \<open>\<open>if system_prompt:\<close> as a leading system message, and as an optional field.\<close>

fun system_messages :: "string option \<Rightarrow> message list" where
  "system_messages None = []"
| "system_messages (Some s) = (if s = [] then [] else [Message ''system'' (TextContent s)])"

fun system_field :: "string option \<Rightarrow> string option" where
  "system_field None = None"
| "system_field (Some s) = (if s = [] then None else Some s)"

definition qwen_chat ::
  "environment \<Rightarrow> provider \<Rightarrow> string \<Rightarrow> string option \<Rightarrow> world \<Rightarrow> call_result" where
  "qwen_chat env p prompt system_prompt w =
     (case ensure_client qwen_initialize_client env p of
        (Some e, p1) \<Rightarrow> (Inl e, p1, w, [])
      | (None, p1) \<Rightarrow>
          (let messages = system_messages system_prompt @ [Message ''user'' (TextContent prompt)];
               call = (case client p1 of
                         None \<Rightarrow> no_attribute ''chat''
                       | Some c \<Rightarrow>
                           send env (ChatCompletionsCreate c
                             (or_str (language_model (config p1)) ''qwen-max'')
                             messages (max_tokens (config p1)) (temperature (config p1))
                             (Some (top_p (config p1)))))
           in run_call p1 call w))"

definition openai_chat ::
  "environment \<Rightarrow> provider \<Rightarrow> string \<Rightarrow> string option \<Rightarrow> world \<Rightarrow> call_result" where
  "openai_chat env p prompt system_prompt w =
     (case ensure_client openai_initialize_client env p of
        (Some e, p1) \<Rightarrow> (Inl e, p1, w, [])
      | (None, p1) \<Rightarrow>
          (let messages = system_messages system_prompt @ [Message ''user'' (TextContent prompt)];
               call = (case client p1 of
                         None \<Rightarrow> no_attribute ''chat''
                       | Some c \<Rightarrow>
                           send env (ChatCompletionsCreate c
                             (or_str (language_model (config p1)) ''gpt-4o'')
                             messages (max_tokens (config p1)) (temperature (config p1))
                             (Some (top_p (config p1)))))
           in run_call p1 call w))"

definition anthropic_chat ::
  "environment \<Rightarrow> provider \<Rightarrow> string \<Rightarrow> string option \<Rightarrow> world \<Rightarrow> call_result" where
  "anthropic_chat env p prompt system_prompt w =
     (case ensure_client anthropic_initialize_client env p of
        (Some e, p1) \<Rightarrow> (Inl e, p1, w, [])
      | (None, p1) \<Rightarrow>
          (let messages = [Message ''user'' (TextContent prompt)];
               call = (case client p1 of
                         None \<Rightarrow> no_attribute ''messages''
                       | Some c \<Rightarrow>
                           send env (MessagesCreate c
                             (or_str (language_model (config p1)) ''claude-sonnet-4-20250514'')
                             (max_tokens (config p1)) messages (temperature (config p1))
                             (system_field system_prompt)))
           in run_call p1 call w))"

definition gemini_chat ::
  "environment \<Rightarrow> provider \<Rightarrow> string \<Rightarrow> string option \<Rightarrow> world \<Rightarrow> call_result" where
  "gemini_chat env p prompt system_prompt w =
     (case ensure_client gemini_initialize_client env p of
        (Some e, p1) \<Rightarrow> (Inl e, p1, w, [])
      | (None, p1) \<Rightarrow>
          (let full_prompt = (case system_field system_prompt of
                                None \<Rightarrow> prompt
                              | Some s \<Rightarrow> s @ [CHR 0x0A, CHR 0x0A] @ prompt);
               call = (case language_model_attr p1 of
                         None \<Rightarrow> no_attribute ''_language_model''
                       | Some m \<Rightarrow>
                           send env (GenerateContent m [GeminiText full_prompt]
                             (temperature (config p1)) (Some (top_p (config p1)))
                             (max_tokens (config p1))))
           in run_call p1 call w))"

definition ollama_chat ::
  "environment \<Rightarrow> provider \<Rightarrow> string \<Rightarrow> string option \<Rightarrow> world \<Rightarrow> call_result" where
  "ollama_chat env p prompt system_prompt w =
     (case ensure_client ollama_initialize_client env p of
        (Some e, p1) \<Rightarrow> (Inl e, p1, w, [])
      | (None, p1) \<Rightarrow>
          (let call = (case base_url_attr p1 of
                         None \<Rightarrow> no_attribute ''_base_url''
                       | Some b \<Rightarrow>
                           send env (OllamaPost (b @ ''/api/generate'')
                             (or_str (language_model (config p1)) ''llama3'') prompt None True
                             (temperature (config p1)) (Some (top_p (config p1)))
                             (max_tokens (config p1)) (system_field system_prompt)))
           in run_call p1 call w))"

definition chat ::
  "environment \<Rightarrow> provider \<Rightarrow> string \<Rightarrow> string option \<Rightarrow> world \<Rightarrow> call_result" where
  "chat env p prompt system_prompt w =
     (case kind p of
        Qwen \<Rightarrow> qwen_chat env p prompt system_prompt w
      | Gemini \<Rightarrow> gemini_chat env p prompt system_prompt w
      | OpenAI \<Rightarrow> openai_chat env p prompt system_prompt w
      | Anthropic \<Rightarrow> anthropic_chat env p prompt system_prompt w
      | Ollama \<Rightarrow> ollama_chat env p prompt system_prompt w)"

subsection \<open>\<open>vision\<close>\<close>

definition qwen_vision ::
  "environment \<Rightarrow> provider \<Rightarrow> bytes \<Rightarrow> string \<Rightarrow> string \<Rightarrow> world \<Rightarrow> call_result" where
  "qwen_vision env p image_data prompt image_format w =
     (case ensure_client qwen_initialize_client env p of
        (Some e, p1) \<Rightarrow> (Inl e, p1, w, [])
      | (None, p1) \<Rightarrow>
          (let image_base64 = b64encode image_data;
               messages = [Message ''user'' (PartsContent
                  [ImageUrlPart (''data:image/'' @ image_format @ '';base64,'' @ image_base64) None,
                   TextPart prompt])];
               call = (case client p1 of
                         None \<Rightarrow> no_attribute ''chat''
                       | Some c \<Rightarrow>
                           send env (ChatCompletionsCreate c
                             (or_str (vision_model (config p1)) ''qwen-vl-plus'')
                             messages (max_tokens (config p1)) 0.1 None))
           in run_call p1 call w))"

definition openai_vision ::
  "environment \<Rightarrow> provider \<Rightarrow> bytes \<Rightarrow> string \<Rightarrow> string \<Rightarrow> world \<Rightarrow> call_result" where
  "openai_vision env p image_data prompt image_format w =
     (case ensure_client openai_initialize_client env p of
        (Some e, p1) \<Rightarrow> (Inl e, p1, w, [])
      | (None, p1) \<Rightarrow>
          (let image_base64 = b64encode image_data;
               messages = [Message ''user'' (PartsContent
                  [ImageUrlPart (''data:image/'' @ image_format @ '';base64,'' @ image_base64)
                     (Some ''high''),
                   TextPart prompt])];
               call = (case client p1 of
                         None \<Rightarrow> no_attribute ''chat''
                       | Some c \<Rightarrow>
                           send env (ChatCompletionsCreate c
                             (or_str (vision_model (config p1)) ''gpt-4o'')
                             messages (max_tokens (config p1)) 0.1 None))
           in run_call p1 call w))"

definition media_type_map :: "(string \<times> string) list" where
  "media_type_map =
     [(''png'', ''image/png''), (''jpg'', ''image/jpeg''), (''jpeg'', ''image/jpeg''),
      (''gif'', ''image/gif''), (''webp'', ''image/webp'')]"

definition anthropic_vision ::
  "environment \<Rightarrow> provider \<Rightarrow> bytes \<Rightarrow> string \<Rightarrow> string \<Rightarrow> world \<Rightarrow> call_result" where
  "anthropic_vision env p image_data prompt image_format w =
     (case ensure_client anthropic_initialize_client env p of
        (Some e, p1) \<Rightarrow> (Inl e, p1, w, [])
      | (None, p1) \<Rightarrow>
          (let image_base64 = b64encode image_data;
               media_type' = (case map_of media_type_map (lower image_format) of
                                None \<Rightarrow> ''image/png''
                              | Some t \<Rightarrow> t);
               messages = [Message ''user'' (PartsContent
                  [ImagePart ''base64'' media_type' image_base64, TextPart prompt])];
               call = (case client p1 of
                         None \<Rightarrow> no_attribute ''messages''
                       | Some c \<Rightarrow>
                           send env (MessagesCreate c
                             (or_str (vision_model (config p1)) ''claude-sonnet-4-20250514'')
                             (max_tokens (config p1)) messages 0.1 None))
           in run_call p1 call w))"

definition gemini_vision ::
  "environment \<Rightarrow> provider \<Rightarrow> bytes \<Rightarrow> string \<Rightarrow> string \<Rightarrow> world \<Rightarrow> call_result" where
  "gemini_vision env p image_data prompt image_format w =
     (case ensure_client gemini_initialize_client env p of
        (Some e, p1) \<Rightarrow> (Inl e, p1, w, [])
      | (None, p1) \<Rightarrow>
          (let image_part = GeminiImage (''image/'' @ image_format) image_data;
               call = (case vision_model_attr p1 of
                         None \<Rightarrow> no_attribute ''_vision_model''
                       | Some m \<Rightarrow>
                           send env (GenerateContent m [image_part, GeminiText prompt]
                             0.1 None (max_tokens (config p1))))
           in run_call p1 call w))"

definition ollama_vision ::
  "environment \<Rightarrow> provider \<Rightarrow> bytes \<Rightarrow> string \<Rightarrow> string \<Rightarrow> world \<Rightarrow> call_result" where
  "ollama_vision env p image_data prompt image_format w =
     (case ensure_client ollama_initialize_client env p of
        (Some e, p1) \<Rightarrow> (Inl e, p1, w, [])
      | (None, p1) \<Rightarrow>
          (let image_base64 = b64encode image_data;
               call = (case base_url_attr p1 of
                         None \<Rightarrow> no_attribute ''_base_url''
                       | Some b \<Rightarrow>
                           send env (OllamaPost (b @ ''/api/generate'')
                             (or_str (vision_model (config p1)) ''llava'') prompt
                             (Some [image_base64]) True 0.1 None
                             (max_tokens (config p1)) None))
           in run_call p1 call w))"

definition vision ::
  "environment \<Rightarrow> provider \<Rightarrow> bytes \<Rightarrow> string \<Rightarrow> string \<Rightarrow> world \<Rightarrow> call_result" where
  "vision env p image_data prompt image_format w =
     (case kind p of
        Qwen \<Rightarrow> qwen_vision env p image_data prompt image_format w
      | Gemini \<Rightarrow> gemini_vision env p image_data prompt image_format w
      | OpenAI \<Rightarrow> openai_vision env p image_data prompt image_format w
      | Anthropic \<Rightarrow> anthropic_vision env p image_data prompt image_format w
      | Ollama \<Rightarrow> ollama_vision env p image_data prompt image_format w)"

text \<open>The requests a call added to the world.\<close>

definition new_requests :: "world \<Rightarrow> world \<Rightarrow> request list" where
  "new_requests w w' = drop (length (sent w)) (sent w')"

section \<open>\<open>factory.py\<close>\<close>

text \<open>
  What the factory reads from its host: the built-in conversions \<open>int(s)\<close> and \<open>float(s)\<close>
  of a string (\<open>None\<close> where they raise \<open>ValueError\<close>), the text files by path, as lists of
  lines, and the directory of \<open>factory.py\<close>. The process environment \<open>os.environ\<close> is a
  map that the factory also writes, so it is passed and returned.
\<close>

record host =
  int_of_str :: "string \<Rightarrow> int option"
  float_of_str :: "string \<Rightarrow> real option"
  files :: "string \<rightharpoonup> string list"
  module_dir :: string

type_synonym environ = "string \<rightharpoonup> string"

text \<open>The registry, in the order of the dictionary's keys.\<close>

definition PROVIDERS :: "(string \<times> provider_kind) list" where
  "PROVIDERS =
     [(''qwen'', Qwen), (''gemini'', Gemini), (''openai'', OpenAI),
      (''anthropic'', Anthropic), (''ollama'', Ollama)]"

text \<open>\<open>DEFAULT_MODELS\<close>: the vision and the language model of each provider.\<close>

fun DEFAULT_MODELS :: "provider_kind \<Rightarrow> string \<times> string" where
  "DEFAULT_MODELS Qwen = (''qwen-vl-plus'', ''qwen-max'')"
| "DEFAULT_MODELS Gemini = (''gemini-2.0-flash'', ''gemini-2.0-flash'')"
| "DEFAULT_MODELS OpenAI = (''gpt-4o'', ''gpt-4o'')"
| "DEFAULT_MODELS Anthropic = (''claude-sonnet-4-20250514'', ''claude-sonnet-4-20250514'')"
| "DEFAULT_MODELS Ollama = (''llava'', ''llama3'')"

fun api_key_env_map :: "provider_kind \<Rightarrow> string option" where
  "api_key_env_map Qwen = Some ''DASHSCOPE_API_KEY''"
| "api_key_env_map Gemini = Some ''GEMINI_API_KEY''"
| "api_key_env_map OpenAI = Some ''OPENAI_API_KEY''"
| "api_key_env_map Anthropic = Some ''ANTHROPIC_API_KEY''"
| "api_key_env_map Ollama = None"

text \<open>
  The keyword options that name a numeric field of \<open>ProviderConfig\<close> (those the callers in
  the repository pass); \<open>None\<close> is an option not given.
\<close>

record kwargs =
  kw_max_tokens :: "int option"
  kw_temperature :: "real option"
  kw_top_p :: "real option"
  kw_max_retries :: "int option"
  kw_retry_delay :: "real option"

definition no_kwargs :: kwargs where
  "no_kwargs =
     \<lparr> kw_max_tokens = None, kw_temperature = None, kw_top_p = None, kw_max_retries = None,
       kw_retry_delay = None \<rparr>"

text \<open>
  \<open>ProviderConfig(api_key=..., api_base=..., vision_model=..., language_model=..., **kwargs)\<close>:
  the fields given, the dataclass defaults for the others, then \<open>__post_init__\<close>.
\<close>

definition ProviderConfig_init ::
  "string \<Rightarrow> string \<Rightarrow> string \<Rightarrow> string \<Rightarrow> kwargs \<Rightarrow> ProviderConfig" where
  "ProviderConfig_init key base vm lm kw =
     post_init
       \<lparr> api_key = key, api_base = base, vision_model = vm, language_model = lm,
         max_tokens = (case kw_max_tokens kw of None \<Rightarrow> 4096 | Some v \<Rightarrow> v),
         temperature = (case kw_temperature kw of None \<Rightarrow> 0.7 | Some v \<Rightarrow> v),
         top_p = (case kw_top_p kw of None \<Rightarrow> 0.9 | Some v \<Rightarrow> v),
         max_retries = (case kw_max_retries kw of None \<Rightarrow> 3 | Some v \<Rightarrow> v),
         retry_delay = (case kw_retry_delay kw of None \<Rightarrow> 1 | Some v \<Rightarrow> v) \<rparr>"

text \<open>\<open>d.get(k, default)\<close> and the value of an optional argument.\<close>

definition get_or :: "(string \<rightharpoonup> string) \<Rightarrow> string \<Rightarrow> string \<Rightarrow> string" where
  "get_or d k dflt = (case d k of None \<Rightarrow> dflt | Some v \<Rightarrow> v)"

fun arg_or :: "string option \<Rightarrow> string \<Rightarrow> string" where
  "arg_or None dflt = dflt"
| "arg_or (Some v) dflt = v"

text \<open>
  The factory functions of the provider modules. An optional argument is \<open>None\<close> when the
  caller leaves it out; \<open>api_key or os.environ.get(...)\<close> treats \<open>None\<close> and the empty
  string alike.
\<close>

definition create_qwen_provider ::
  "environ \<Rightarrow> string option \<Rightarrow> string option \<Rightarrow> string option \<Rightarrow> kwargs \<Rightarrow> provider" where
  "create_qwen_provider en key vm lm kw =
     new_provider Qwen
       (ProviderConfig_init (or_str (arg_or key []) (get_or en ''DASHSCOPE_API_KEY'' []))
          ''https://dashscope.aliyuncs.com/compatible-mode/v1''
          (arg_or vm ''qwen-vl-plus'') (arg_or lm ''qwen-max'') kw)"

definition create_gemini_provider ::
  "environ \<Rightarrow> string option \<Rightarrow> string option \<Rightarrow> string option \<Rightarrow> kwargs \<Rightarrow> provider" where
  "create_gemini_provider en key vm lm kw =
     new_provider Gemini
       (ProviderConfig_init (or_str (arg_or key []) (get_or en ''GEMINI_API_KEY'' [])) []
          (arg_or vm ''gemini-2.0-flash'') (arg_or lm ''gemini-2.0-flash'') kw)"

definition create_openai_provider ::
  "environ \<Rightarrow> string option \<Rightarrow> string option \<Rightarrow> string option \<Rightarrow> kwargs \<Rightarrow> provider" where
  "create_openai_provider en key vm lm kw =
     new_provider OpenAI
       (ProviderConfig_init (or_str (arg_or key []) (get_or en ''OPENAI_API_KEY'' [])) []
          (arg_or vm ''gpt-4o'') (arg_or lm ''gpt-4o'') kw)"

definition create_anthropic_provider ::
  "environ \<Rightarrow> string option \<Rightarrow> string option \<Rightarrow> string option \<Rightarrow> kwargs \<Rightarrow> provider" where
  "create_anthropic_provider en key vm lm kw =
     new_provider Anthropic
       (ProviderConfig_init (or_str (arg_or key []) (get_or en ''ANTHROPIC_API_KEY'' [])) []
          (arg_or vm ''claude-sonnet-4-20250514'') (arg_or lm ''claude-sonnet-4-20250514'') kw)"

definition create_ollama_provider ::
  "environ \<Rightarrow> string option \<Rightarrow> string option \<Rightarrow> string option \<Rightarrow> kwargs \<Rightarrow> provider" where
  "create_ollama_provider en base_url vm lm kw =
     new_provider Ollama
       (ProviderConfig_init []
          (or_str (arg_or base_url ''http://localhost:11434'')
             (get_or en ''OLLAMA_BASE_URL'' ''http://localhost:11434''))
          (arg_or vm ''llava'') (arg_or lm ''llama3'') kw)"

subsection \<open>\<open>_load_env_file\<close>\<close>

text \<open>\<open>os.path.join(a, b)\<close> on a POSIX host.\<close>

definition path_join :: "string \<Rightarrow> string \<Rightarrow> string" where
  "path_join a b =
     (if startswith b ''/'' then b
      else if a = [] \<or> last a = CHR ''/'' then a @ b
      else a @ ''/'' @ b)"

definition search_paths :: "host \<Rightarrow> string option \<Rightarrow> string option list" where
  "search_paths h env_path =
     [env_path, Some ''.env'',
      Some (path_join (path_join (module_dir h) ''..'') ''.env''),
      Some (path_join (path_join (path_join (module_dir h) ''..'') ''..'') ''.env'')]"

text \<open>The first path that is given, non-empty and exists.\<close>

fun first_existing :: "host \<Rightarrow> string option list \<Rightarrow> string option" where
  "first_existing h [] = None"
| "first_existing h (None # ps) = first_existing h ps"
| "first_existing h (Some p # ps) =
     (if p \<noteq> [] \<and> files h p \<noteq> None then Some p else first_existing h ps)"

text \<open>
  The body of the loop over the lines: a blank line, a comment and a line without \<open>=\<close>
  assign nothing; another line assigns the text after the first \<open>=\<close>, stripped of
  blanks and quotes, to the name before it.
\<close>

definition parse_line :: "string \<Rightarrow> (string \<times> string) option" where
  "parse_line line =
     (let l = strip line
      in if l = [] \<or> startswith l ''#'' then None
         else if CHR ''='' \<in> set l then
           Some (strip (takeWhile (\<lambda>c. c \<noteq> CHR ''='') l),
                 strip_chars [CHR 0x27]
                   (strip_chars [CHR 0x22] (strip (tl (dropWhile (\<lambda>c. c \<noteq> CHR ''='') l)))))
         else None)"

text \<open>
  The loop: each assignment goes into \<open>env_vars\<close> and, where the variable is not set yet,
  into \<open>os.environ\<close> (\<open>setdefault\<close>), which rejects a name or value that holds a NUL
  character (\<open>ValueError\<close>) and an empty name (\<open>OSError\<close>).
\<close>

fun load_lines ::
  "string list \<Rightarrow> (string \<rightharpoonup> string) \<Rightarrow> environ \<Rightarrow>
     (py_error + (string \<rightharpoonup> string)) \<times> environ" where
  "load_lines [] env_vars en = (Inr env_vars, en)"
| "load_lines (line # rest) env_vars en =
     (case parse_line line of
        None \<Rightarrow> load_lines rest env_vars en
      | Some (key, v) \<Rightarrow>
          (if en key \<noteq> None then load_lines rest (env_vars(key \<mapsto> v)) en
           else if CHR 0x00 \<in> set key \<or> CHR 0x00 \<in> set v then
             (Inl (ValueError ''embedded null byte''), en)
           else if key = [] then (Inl (OSError ''[Errno 22] Invalid argument''), en)
           else load_lines rest (env_vars(key \<mapsto> v)) (en(key \<mapsto> v))))"

definition load_env_file ::
  "host \<Rightarrow> string option \<Rightarrow> environ \<Rightarrow> (py_error + (string \<rightharpoonup> string)) \<times> environ" where
  "load_env_file h env_path en =
     (case first_existing h (search_paths h env_path) of
        None \<Rightarrow> (Inr Map.empty, en)
      | Some path \<Rightarrow>
          (case files h path of
             None \<Rightarrow> (Inr Map.empty, en)
           | Some lines \<Rightarrow> load_lines lines Map.empty en))"

subsection \<open>\<open>get_provider\<close>\<close>

text \<open>\<open>os.environ.get(k, env_vars.get(k))\<close>: the environment first, then the file.\<close>

definition lookup2 :: "environ \<Rightarrow> (string \<rightharpoonup> string) \<Rightarrow> string \<Rightarrow> string option" where
  "lookup2 en env_vars k = (case en k of Some v \<Rightarrow> Some v | None \<Rightarrow> env_vars k)"

text \<open>
  \<open>int(os.environ.get(k, env_vars.get(k, d)))\<close> and the same with \<open>float\<close>. The error
  message ends with \<open>repr(s)\<close>, here the string between single quotes (the escapes that
  \<open>repr\<close> writes for quotes, backslashes and control characters are not modelled).
\<close>

definition int_setting ::
  "host \<Rightarrow> environ \<Rightarrow> (string \<rightharpoonup> string) \<Rightarrow> string \<Rightarrow> int \<Rightarrow> py_error + int" where
  "int_setting h en env_vars k d =
     (case lookup2 en env_vars k of
        None \<Rightarrow> Inr d
      | Some s \<Rightarrow>
          (case int_of_str h s of
             None \<Rightarrow>
               Inl (ValueError (''invalid literal for int() with base 10: ''
                      @ [CHR 0x27] @ s @ [CHR 0x27]))
           | Some i \<Rightarrow> Inr i))"

definition float_setting ::
  "host \<Rightarrow> environ \<Rightarrow> (string \<rightharpoonup> string) \<Rightarrow> string \<Rightarrow> real \<Rightarrow> py_error + real" where
  "float_setting h en env_vars k d =
     (case lookup2 en env_vars k of
        None \<Rightarrow> Inr d
      | Some s \<Rightarrow>
          (case float_of_str h s of
             None \<Rightarrow>
               Inl (ValueError (''could not convert string to float: ''
                      @ [CHR 0x27] @ s @ [CHR 0x27]))
           | Some x \<Rightarrow> Inr x))"

text \<open>\<open>{..., **kwargs}\<close>: an option of the caller replaces the value read from the settings.\<close>

definition merge_kwargs :: "int \<Rightarrow> real \<Rightarrow> int \<Rightarrow> real \<Rightarrow> kwargs \<Rightarrow> kwargs" where
  "merge_kwargs mt t mr rd kw =
     \<lparr> kw_max_tokens = Some (case kw_max_tokens kw of None \<Rightarrow> mt | Some v \<Rightarrow> v),
       kw_temperature = Some (case kw_temperature kw of None \<Rightarrow> t | Some v \<Rightarrow> v),
       kw_top_p = kw_top_p kw,
       kw_max_retries = Some (case kw_max_retries kw of None \<Rightarrow> mr | Some v \<Rightarrow> v),
       kw_retry_delay = Some (case kw_retry_delay kw of None \<Rightarrow> rd | Some v \<Rightarrow> v) \<rparr>"

text \<open>\<open>FACTORY_FUNCTIONS[provider_name](**provider_kwargs)\<close>, for the providers with a key.\<close>

fun FACTORY_FUNCTIONS ::
  "provider_kind \<Rightarrow> environ \<Rightarrow> string option \<Rightarrow> string option \<Rightarrow> string option \<Rightarrow> kwargs \<Rightarrow>
     provider" where
  "FACTORY_FUNCTIONS Qwen = create_qwen_provider"
| "FACTORY_FUNCTIONS Gemini = create_gemini_provider"
| "FACTORY_FUNCTIONS OpenAI = create_openai_provider"
| "FACTORY_FUNCTIONS Anthropic = create_anthropic_provider"
| "FACTORY_FUNCTIONS Ollama = create_ollama_provider"

definition get_provider ::
  "host \<Rightarrow> environ \<Rightarrow> string option \<Rightarrow> string option \<Rightarrow> string option \<Rightarrow> string option \<Rightarrow>
     string option \<Rightarrow> kwargs \<Rightarrow> (py_error + provider) \<times> environ" where
  "get_provider h environ0 provider_name api_key_arg vision_model_arg language_model_arg
       env_file kw =
     (case load_env_file h env_file environ0 of
        (Inl e, en) \<Rightarrow> (Inl e, en)
      | (Inr env_vars, en) \<Rightarrow>
          (let pn = lower (case provider_name of
                             Some n \<Rightarrow> n
                           | None \<Rightarrow>
                               (case lookup2 en env_vars ''AI_PROVIDER'' of
                                  Some v \<Rightarrow> v
                                | None \<Rightarrow> ''qwen''))
           in case map_of PROVIDERS pn of
                None \<Rightarrow>
                  (Inl (ValueError (''Unknown provider: '' @ pn @ ''. Available providers: ''
                          @ join '', '' (map fst PROVIDERS))), en)
              | Some k \<Rightarrow>
                  (let key = (case (api_key_arg, api_key_env_map k) of
                                (None, Some env_key) \<Rightarrow>
                                  Some (case lookup2 en env_vars env_key of
                                          Some v \<Rightarrow> v
                                        | None \<Rightarrow> [])
                              | _ \<Rightarrow> api_key_arg);
                       prefix = upper pn;
                       vm = (case vision_model_arg of
                               Some v \<Rightarrow> v
                             | None \<Rightarrow>
                                 (case lookup2 en env_vars (prefix @ ''_VISION_MODEL'') of
                                    Some v \<Rightarrow> v
                                  | None \<Rightarrow> fst (DEFAULT_MODELS k)));
                       lm = (case language_model_arg of
                               Some v \<Rightarrow> v
                             | None \<Rightarrow>
                                 (case lookup2 en env_vars (prefix @ ''_LANGUAGE_MODEL'') of
                                    Some v \<Rightarrow> v
                                  | None \<Rightarrow> snd (DEFAULT_MODELS k)))
                   in case int_setting h en env_vars ''MAX_TOKENS'' 4096 of
                        Inl e \<Rightarrow> (Inl e, en)
                      | Inr mt \<Rightarrow>
                   (case float_setting h en env_vars ''TEMPERATURE'' 0.7 of
                        Inl e \<Rightarrow> (Inl e, en)
                      | Inr t \<Rightarrow>
                   (case int_setting h en env_vars ''MAX_RETRIES'' 3 of
                        Inl e \<Rightarrow> (Inl e, en)
                      | Inr mr \<Rightarrow>
                   (case float_setting h en env_vars ''RETRY_DELAY'' 1 of
                        Inl e \<Rightarrow> (Inl e, en)
                      | Inr rd \<Rightarrow>
                          (let kw' = merge_kwargs mt t mr rd kw
                           in if k = Ollama then
                                (let base_url = lookup2 en env_vars ''OLLAMA_BASE_URL''
                                 in if truthy base_url
                                    then (Inr (create_ollama_provider en base_url (Some vm)
                                                 (Some lm) kw'), en)
                                    else (Inr (create_ollama_provider en None (Some vm)
                                                 (Some lm) kw'), en))
                              else (Inr (FACTORY_FUNCTIONS k en key (Some vm) (Some lm) kw'),
                                    en))))))))"

subsection \<open>The resolution order, in the words of the specification\<close>






text \<open>A sample host: no \<open>.env\<close> file anywhere, and conversions that accept nothing.\<close>

definition bare_host :: host where
  "bare_host =
     \<lparr> int_of_str = (\<lambda>s. None), float_of_str = (\<lambda>s. None), files = Map.empty,
       module_dir = ''/app/src/providers'' \<rparr>"



text \<open>Sample surroundings, used to run the model: every module is installed, Ollama
  answers 200, and the vendor answers every request with the text "ok"; and one where
  the vendor times out at every request.\<close>

definition friendly_env :: environment where
  "friendly_env =
     \<lparr> importable = (\<lambda>m. True), ollama_tags = (\<lambda>u. Status 200),
       respond = (\<lambda>h. Returned ''ok'') \<rparr>"

definition hostile_env :: environment where
  "hostile_env =
     \<lparr> importable = (\<lambda>m. True), ollama_tags = (\<lambda>u. Status 200),
       respond = (\<lambda>h. Raised (PyException ''TimeoutError'' ''timed out'')) \<rparr>"

definition sample_image :: bytes where
  "sample_image = [0x4d, 0x61, 0x6e]"

definition empty_world :: world where
  "empty_world = \<lparr> sent = [] \<rparr>"


definition third_time_lucky :: "nat \<Rightarrow> string outcome \<times> nat" where
  "third_time_lucky n =
     (if n < 2 then (Raised (PyException ''TimeoutError'' ''timed out''), Suc n)
      else (Returned ''ok'', Suc n))"

section \<open>Verified properties\<close>

subsection \<open>Base64: decoding undoes encoding\<close>

lemma index_of_nth:
  "distinct xs \<Longrightarrow> i < length xs \<Longrightarrow> index_of (xs ! i) xs = Some i"
proof (induction xs arbitrary: i)
  case Nil
  then show ?case by simp
next
  case (Cons x xs)
  show ?case
  proof (cases i)
    case 0
    then show ?thesis by simp
  next
    case (Suc j)
    with Cons.prems have j: "j < length xs" and d: "distinct xs" and nx: "x \<notin> set xs"
      by auto
    from j nx have "xs ! j \<noteq> x" by (metis nth_mem)
    with Cons.IH [OF d j] Suc show ?thesis by simp
  qed
qed

lemma b64_alphabet_length: "length b64_alphabet = 64"
  by (simp add: b64_alphabet_def)

lemma b64_alphabet_distinct: "distinct b64_alphabet"
  by (simp add: b64_alphabet_def)

lemma b64_alphabet_no_pad: "CHR ''='' \<notin> set b64_alphabet"
  by (simp add: b64_alphabet_def)

lemma b64_index_char: "i < 64 \<Longrightarrow> b64_index (b64_char i) = Some i"
  by (simp add: b64_index_def b64_char_def index_of_nth b64_alphabet_distinct
      b64_alphabet_length)

lemma b64_char_not_pad: "i < 64 \<Longrightarrow> b64_char i \<noteq> CHR ''=''"
  unfolding b64_char_def
  by (metis b64_alphabet_no_pad b64_alphabet_length nth_mem)

lemma byte_bound: "unat (a :: 8 word) < 256"
  using unsigned_less [of a] by simp

lemma sextets_recompose:
  fixes n :: nat
  shows "(n div 262144) * 262144 + (n div 4096 mod 64) * 4096 + (n div 64 mod 64) * 64
           + n mod 64 = n"
proof -
  define q1 where "q1 = n div 64"
  define q2 where "q2 = q1 div 64"
  define q3 where "q3 = q2 div 64"
  have d2: "n div 4096 = q2"
    unfolding q2_def q1_def by (simp add: div_mult2_eq [symmetric])
  have d3: "n div 262144 = q3"
    unfolding q3_def q2_def q1_def by (simp add: div_mult2_eq [symmetric])
  have e1: "n = q1 * 64 + n mod 64"
    unfolding q1_def by simp
  have e2: "q1 = q2 * 64 + q1 mod 64"
    unfolding q2_def by simp
  have e3: "q2 = q3 * 64 + q2 mod 64"
    unfolding q3_def by simp
  have "q3 * 262144 + (q2 mod 64) * 4096 + (q1 mod 64) * 64 + n mod 64
          = (q3 * 64 + q2 mod 64) * 4096 + (q1 mod 64) * 64 + n mod 64"
    by simp
  also have "\<dots> = q2 * 4096 + (q1 mod 64) * 64 + n mod 64"
    using e3 by simp
  also have "\<dots> = (q2 * 64 + q1 mod 64) * 64 + n mod 64"
    by simp
  also have "\<dots> = q1 * 64 + n mod 64"
    using e2 by simp
  also have "\<dots> = n"
    using e1 by simp
  finally show ?thesis
    by (simp add: d2 d3 q1_def)
qed

lemma group3_bytes:
  fixes a b c :: nat
  assumes "a < 256" "b < 256" "c < 256"
  shows "(a * 65536 + b * 256 + c) div 262144 < 64"
    and "(a * 65536 + b * 256 + c) div 65536 = a"
    and "(a * 65536 + b * 256 + c) div 256 mod 256 = b"
    and "(a * 65536 + b * 256 + c) mod 256 = c"
proof -
  have lt: "a * 65536 + b * 256 + c < 64 * 262144"
    using assms by simp
  then show "(a * 65536 + b * 256 + c) div 262144 < 64"
    by (simp add: less_mult_imp_div_less)
  have low: "b * 256 + c < 65536"
    using assms by simp
  have m0: "a * 65536 + b * 256 + c = (b * 256 + c) + a * 65536"
    by simp
  show "(a * 65536 + b * 256 + c) div 65536 = a"
    unfolding m0 using low by simp
  have m: "a * 65536 + b * 256 + c = c + (a * 256 + b) * 256"
    by simp
  have dv: "(a * 65536 + b * 256 + c) div 256 = a * 256 + b"
    unfolding m using assms by simp
  show "(a * 65536 + b * 256 + c) div 256 mod 256 = b"
    unfolding dv using assms by simp
  have "(c + (a * 256 + b) * 256) mod 256 = c mod 256"
    by (simp only: mod_mult_self1)
  with assms(3) show "(a * 65536 + b * 256 + c) mod 256 = c"
    by (simp only: m mod_less)
qed


lemma b64decode_encode: "b64decode (b64encode bs) = Some bs"
proof (induction bs rule: b64encode.induct)
  case 1
  show ?case by simp
next
  case (2 a)
  define n where "n = unat a * 65536"
  have n': "n = unat a * 65536 + 0 * 256 + 0"
    by (simp add: n_def)
  have i1: "n div 262144 < 64"
    unfolding n' by (rule group3_bytes) (simp_all add: byte_bound)
  have z: "n mod 64 = 0" "n div 64 mod 64 = 0"
    by (simp_all add: n_def)
  have recomp: "n div 262144 * 262144 + n div 4096 mod 64 * 4096 = n"
    using sextets_recompose [of n] z by simp
  have a: "n div 65536 = unat a"
    by (simp add: n_def)
  show ?case
    using i1 recomp a
    by (simp add: n_def [symmetric] Let_def b64_index_char)
next
  case (3 a b)
  define n where "n = unat a * 65536 + unat b * 256"
  have n': "n = unat a * 65536 + unat b * 256 + 0"
    by (simp add: n_def)
  have i1: "n div 262144 < 64"
    unfolding n' by (rule group3_bytes) (simp_all add: byte_bound)
  have z: "n mod 64 = 0"
    by (simp add: n_def)
  have recomp: "n div 262144 * 262144 + n div 4096 mod 64 * 4096 + n div 64 mod 64 * 64 = n"
    using sextets_recompose [of n] z by simp
  have a: "n div 65536 = unat a"
    unfolding n' by (rule group3_bytes) (simp_all add: byte_bound)
  have b: "n div 256 mod 256 = unat b"
    unfolding n' by (rule group3_bytes) (simp_all add: byte_bound)
  show ?case
    using i1 recomp a b
    by (simp add: n_def [symmetric] Let_def b64_index_char b64_char_not_pad)
next
  case (4 a b c rest)
  define n where "n = unat a * 65536 + unat b * 256 + unat c"
  have i1: "n div 262144 < 64"
    unfolding n_def by (rule group3_bytes) (simp_all add: byte_bound)
  have recomp: "n div 262144 * 262144 + n div 4096 mod 64 * 4096 + n div 64 mod 64 * 64
                + n mod 64 = n"
    by (rule sextets_recompose)
  have a: "n div 65536 = unat a"
    unfolding n_def by (rule group3_bytes) (simp_all add: byte_bound)
  have b: "n div 256 mod 256 = unat b"
    unfolding n_def by (rule group3_bytes) (simp_all add: byte_bound)
  have c: "n mod 256 = unat c"
    unfolding n_def by (rule group3_bytes) (simp_all add: byte_bound)
  show ?case
    using i1 recomp a b c "4.IH"
    by (simp add: n_def [symmetric] Let_def b64_index_char b64_char_not_pad)
qed

subsection \<open>The retry loop and the world\<close>

lemma invocations_simps [simp]:
  "invocations [] = 0"
  "invocations (Invoked # tr) = Suc (invocations tr)"
  "invocations (Printed a b c d # tr) = invocations tr"
  "invocations (Slept t # tr) = invocations tr"
  "invocations (tr @ tr') = invocations tr + invocations tr'"
  by (simp_all add: invocations_def)

lemma retry_loop_world:
  "\<forall>w. snd (func w) = step w \<Longrightarrow>
   retry_loop cfg nm func a le w tr = (res, w', tr') \<Longrightarrow>
     \<exists>k. w' = (step ^^ k) w \<and> invocations tr' = invocations tr + k \<and>
         (a < max_retries cfg \<longrightarrow> 0 < k)"
proof (induction cfg nm func a le w tr arbitrary: res w' tr' rule: retry_loop.induct)
  case (1 cfg nm func a le w tr)
  note step = "1.prems"(1)
  note run = "1.prems"(2)
  show ?case
  proof (cases "a < max_retries cfg")
    case False
    with run have "w' = w" "tr' = tr"
      by (subst (asm) retry_loop.simps, simp)+
    then show ?thesis using False by (intro exI [of _ 0]) simp
  next
    case True
    obtain oc w1 where f: "func w = (oc, w1)" by (cases "func w")
    have w1: "w1 = step w" using step f by (metis snd_conv)
    show ?thesis
    proof (cases oc)
      case (Returned v)
      with run True f have "w' = w1" "tr' = tr @ [Invoked]"
        by (subst (asm) retry_loop.simps, simp)+
      then show ?thesis using w1 by (intro exI [of _ "Suc 0"]) simp
    next
      case (Aborted b)
      with run True f have "w' = w1" "tr' = tr @ [Invoked]"
        by (subst (asm) retry_loop.simps, simp)+
      then show ?thesis using w1 by (intro exI [of _ "Suc 0"]) simp
    next
      case (Raised e)
      show ?thesis
      proof (cases "a < max_retries cfg - 1")
        case last_attempt: False
        let ?tr1 = "tr @ [Invoked]"
        from run True f Raised last_attempt
        have "retry_loop cfg nm func (a + 1) (Some e) w1 ?tr1 = (res, w', tr')"
          by (subst (asm) retry_loop.simps) simp
        from "1.IH"(2) [OF True f [symmetric] Raised last_attempt step this]
        obtain k where "w' = (step ^^ k) w1" "invocations tr' = invocations ?tr1 + k"
          by blast
        then show ?thesis
          using w1 by (intro exI [of _ "Suc k"]) (simp add: funpow_swap1)
      next
        case more: True
        define wait_time where "wait_time = retry_delay cfg * 2 ^ nat a"
        define tr1 where "tr1 = tr @ [Invoked,
            Printed (a + 1) (max_retries cfg) wait_time (take 50 (exc_str e))]"
        show ?thesis
        proof (cases "wait_time < 0 \<or> sleep_limit < wait_time")
          case True
          with run \<open>a < max_retries cfg\<close> f Raised more
          have "w' = w1" "tr' = tr1"
            by (subst (asm) retry_loop.simps,
                auto simp: Let_def wait_time_def tr1_def split: if_splits)+
          then show ?thesis
            using w1 by (intro exI [of _ "Suc 0"]) (simp add: tr1_def)
        next
          case False
          then have nonneg: "\<not> wait_time < 0" and fits: "\<not> sleep_limit < wait_time"
            by simp_all
          from False run \<open>a < max_retries cfg\<close> f Raised more
          have "retry_loop cfg nm func (a + 1) (Some e) w1 (tr1 @ [Slept wait_time])
                  = (res, w', tr')"
            by (subst (asm) retry_loop.simps) (simp add: Let_def wait_time_def tr1_def)
          from "1.IH"(1) [OF \<open>a < max_retries cfg\<close> f [symmetric] Raised more wait_time_def
              tr1_def nonneg fits step this]
          obtain k where "w' = (step ^^ k) w1"
            "invocations tr' = invocations (tr1 @ [Slept wait_time]) + k"
            by blast
          then show ?thesis
            using w1 by (intro exI [of _ "Suc k"]) (simp add: funpow_swap1 tr1_def)
        qed
      qed
    qed
  qed
qed

lemma retry_loop_exhausted:
  "\<not> a < max_retries cfg \<Longrightarrow>
   retry_loop cfg nm func a le w tr =
     (Inl (RuntimeError (''All '' @ str_int (max_retries cfg) @ '' retries failed for ''
            @ nm @ '': '' @ str_exc_opt le)), w, tr)"
  by (subst retry_loop.simps) simp


lemma funpow_send:
  "sent (((\<lambda>w. w\<lparr>sent := sent w @ [r]\<rparr>) ^^ k) w) = sent w @ replicate k r"
proof (induction k)
  case 0
  show ?case by simp
next
  case (Suc k)
  then show ?case by (simp add: replicate_append_same)
qed

lemma run_call_send:
  assumes "run_call p (send env r) w = (res, p', w', tr)"
  shows "p' = p" and "new_requests w w' = replicate (invocations tr) r"
proof -
  from assms obtain w1 tr1 where
    run: "retry_loop (config p) (name (kind p)) (send env r) 0 None w [] = (res, w1, tr1)"
    and eqs: "p' = p" "w' = w1" "tr = tr1"
    by (auto simp: run_call_def retry_with_backoff_def split: prod.splits)
  have "\<forall>w. snd (send env r w) = (\<lambda>w. w\<lparr>sent := sent w @ [r]\<rparr>) w"
    by (simp add: send_def)
  from retry_loop_world [OF this run]
  obtain k where "w1 = ((\<lambda>w. w\<lparr>sent := sent w @ [r]\<rparr>) ^^ k) w" "invocations tr1 = k"
    by auto
  then show "new_requests w w' = replicate (invocations tr) r"
    using eqs by (simp add: new_requests_def funpow_send)
  show "p' = p" by fact
qed

lemma run_call_no_attribute:
  assumes "run_call p (no_attribute what) w = (res, p', w', tr)"
  shows "new_requests w w' = []"
proof -
  from assms obtain tr1 where
    run: "retry_loop (config p) (name (kind p)) (no_attribute what) 0 None w [] = (res, w', tr1)"
    by (auto simp: run_call_def retry_with_backoff_def split: prod.splits)
  have "\<forall>w. snd (no_attribute what w) = id w"
    by (simp add: no_attribute_def)
  from retry_loop_world [OF this run]
  obtain k where "w' = (id ^^ k) w" by blast
  then have "w' = w" by (simp only: id_funpow id_apply)
  then show ?thesis by (simp add: new_requests_def)
qed

lemma run_call_no_retries:
  "max_retries (config p) \<le> 0 \<Longrightarrow>
   run_call p call w =
     (Inl (RuntimeError (''All '' @ str_int (max_retries (config p)) @ '' retries failed for ''
            @ name (kind p) @ '': None'')), p, w, [])"
  by (simp add: run_call_def retry_with_backoff_def retry_loop_exhausted)

lemma run_call_uninvoked:
  assumes "run_call p call w = (res, p', w', tr)" and "invocations tr = 0"
  shows "run_call p call2 w = (res, p', w', tr)"
proof -
  from assms(1) obtain w1 tr1 where
    run: "retry_loop (config p) (name (kind p)) call 0 None w [] = (res, w1, tr1)"
    and eqs: "p' = p" "w' = w1" "tr = tr1"
    by (auto simp: run_call_def retry_with_backoff_def split: prod.splits)
  have "\<forall>w. snd (call w) = (\<lambda>w. snd (call w)) w" by simp
  from retry_loop_world [OF this run] assms(2) eqs
  have "\<not> 0 < max_retries (config p)" by auto
  then have "max_retries (config p) \<le> 0" by simp
  from run_call_no_retries [OF this, of call w] run_call_no_retries [OF this, of call2 w]
    assms(1)
  show ?thesis by simp
qed

lemma retry_loop_rel:
  "\<forall>u1 u2. R u1 u2 \<longrightarrow> fst (f1 u1) = fst (f2 u2) \<and> R (snd (f1 u1)) (snd (f2 u2)) \<Longrightarrow>
   R w1 w2 \<Longrightarrow>
   retry_loop cfg nm f1 a le w1 tr = (res, w1', tr') \<Longrightarrow>
     \<exists>w2'. retry_loop cfg nm f2 a le w2 tr = (res, w2', tr') \<and> R w1' w2'"
proof (induction cfg nm f1 a le w1 tr arbitrary: w2 res w1' tr' rule: retry_loop.induct)
  case (1 cfg nm f1 a le w1 tr)
  note rel = "1.prems"(1)
  note start = "1.prems"(2)
  note run = "1.prems"(3)
  show ?case
  proof (cases "a < max_retries cfg")
    case False
    with run have "res = Inl (RuntimeError (''All '' @ str_int (max_retries cfg)
          @ '' retries failed for '' @ nm @ '': '' @ str_exc_opt le))" "w1' = w1" "tr' = tr"
      by (subst (asm) retry_loop.simps, simp)+
    with False start show ?thesis
      by (subst retry_loop.simps) simp
  next
    case True
    obtain oc v1 where g1: "f1 w1 = (oc, v1)" by (cases "f1 w1")
    obtain oc2 v2 where g2: "f2 w2 = (oc2, v2)" by (cases "f2 w2")
    from rel start g1 g2 have same: "oc2 = oc" and next_rel: "R v1 v2"
      by (metis fst_conv, metis snd_conv)
    show ?thesis
    proof (cases oc)
      case (Returned v)
      with run True g1 have "res = Inr v" "w1' = v1" "tr' = tr @ [Invoked]"
        by (subst (asm) retry_loop.simps, simp)+
      with True g2 same Returned next_rel show ?thesis
        by (subst retry_loop.simps) simp
    next
      case (Aborted b)
      with run True g1 have "res = Inl (BaseExc b)" "w1' = v1" "tr' = tr @ [Invoked]"
        by (subst (asm) retry_loop.simps, simp)+
      with True g2 same Aborted next_rel show ?thesis
        by (subst retry_loop.simps) simp
    next
      case (Raised e)
      show ?thesis
      proof (cases "a < max_retries cfg - 1")
        case last_attempt: False
        from run True g1 Raised last_attempt
        have "retry_loop cfg nm f1 (a + 1) (Some e) v1 (tr @ [Invoked]) = (res, w1', tr')"
          by (subst (asm) retry_loop.simps) simp
        from "1.IH"(2) [OF True g1 [symmetric] Raised last_attempt rel next_rel this]
        obtain w2' where
          "retry_loop cfg nm f2 (a + 1) (Some e) v2 (tr @ [Invoked]) = (res, w2', tr')"
          "R w1' w2'"
          by blast
        with True g2 same Raised last_attempt show ?thesis
          by (subst retry_loop.simps) simp
      next
        case more: True
        define wait_time where "wait_time = retry_delay cfg * 2 ^ nat a"
        define tr1 where "tr1 = tr @ [Invoked,
            Printed (a + 1) (max_retries cfg) wait_time (take 50 (exc_str e))]"
        show ?thesis
        proof (cases "wait_time < 0 \<or> sleep_limit < wait_time")
          case True
          with run \<open>a < max_retries cfg\<close> g1 Raised more
          have "w1' = v1" "tr' = tr1"
            "res = (if wait_time < 0
                    then Inl (ValueError ''sleep length must be non-negative'')
                    else Inl (OverflowError ''timestamp too large to convert to C _PyTime_t''))"
            by (subst (asm) retry_loop.simps,
                auto simp: Let_def wait_time_def tr1_def split: if_splits)+
          with True \<open>a < max_retries cfg\<close> g2 same Raised more next_rel show ?thesis
            by (subst retry_loop.simps) (auto simp: Let_def wait_time_def tr1_def)
        next
          case False
          then have nonneg: "\<not> wait_time < 0" and fits: "\<not> sleep_limit < wait_time"
            by simp_all
          from False run \<open>a < max_retries cfg\<close> g1 Raised more
          have "retry_loop cfg nm f1 (a + 1) (Some e) v1 (tr1 @ [Slept wait_time])
                  = (res, w1', tr')"
            by (subst (asm) retry_loop.simps) (simp add: Let_def wait_time_def tr1_def)
          from "1.IH"(1) [OF \<open>a < max_retries cfg\<close> g1 [symmetric] Raised more wait_time_def
              tr1_def nonneg fits rel next_rel this]
          obtain w2' where
            "retry_loop cfg nm f2 (a + 1) (Some e) v2 (tr1 @ [Slept wait_time]) = (res, w2', tr')"
            "R w1' w2'"
            by blast
          with False \<open>a < max_retries cfg\<close> g2 same Raised more show ?thesis
            by (subst retry_loop.simps) (simp add: Let_def wait_time_def tr1_def)
        qed
      qed
    qed
  qed
qed

lemma run_call_invoked:
  assumes "run_call p call w = (res, p', w', tr)" and "0 < max_retries (config p)"
  shows "0 < invocations tr"
proof -
  from assms(1) obtain w1 tr1 where
    run: "retry_loop (config p) (name (kind p)) call 0 None w [] = (res, w1, tr1)"
    and eqs: "tr = tr1"
    by (auto simp: run_call_def retry_with_backoff_def split: prod.splits)
  have "\<forall>w. snd (call w) = (\<lambda>w. snd (call w)) w" by simp
  from retry_loop_world [OF this run] assms(2) eqs show ?thesis by auto
qed

lemma run_call_insensitive:
  assumes ins: "\<forall>h1 h2. length h1 = length h2 \<longrightarrow> respond env h1 = respond env h2"
    and run: "run_call p (send env r1) w = (res, p', w', tr)"
  shows "\<exists>w2. run_call p (send env r2) w = (res, p', w2, tr)"
proof -
  from run obtain w1 tr1 where
    loop: "retry_loop (config p) (name (kind p)) (send env r1) 0 None w [] = (res, w1, tr1)"
    and eqs: "p' = p" "tr = tr1"
    by (auto simp: run_call_def retry_with_backoff_def split: prod.splits)
  have rel: "\<forall>u1 u2. length (sent u1) = length (sent u2) \<longrightarrow>
      fst (send env r1 u1) = fst (send env r2 u2) \<and>
      length (sent (snd (send env r1 u1))) = length (sent (snd (send env r2 u2)))"
    using ins by (simp add: send_def)
  from retry_loop_rel [where R = "\<lambda>u1 u2. length (sent u1) = length (sent u2)",
      OF rel _ loop, of w]
  obtain w2 where
    "retry_loop (config p) (name (kind p)) (send env r2) 0 None w [] = (res, w2, tr1)"
    by auto
  with eqs show ?thesis
    by (simp add: run_call_def retry_with_backoff_def)
qed

lemma new_requests_same [simp]: "new_requests w w = []"
  by (simp add: new_requests_def)

subsection \<open>The requests that \<open>vision\<close> issues\<close>

lemma ensure_client_config:
  "ensure_client qwen_initialize_client env p = (r, p1) \<Longrightarrow> config p1 = config p"
  "ensure_client openai_initialize_client env p = (r, p1) \<Longrightarrow> config p1 = config p"
  "ensure_client anthropic_initialize_client env p = (r, p1) \<Longrightarrow> config p1 = config p"
  "ensure_client gemini_initialize_client env p = (r, p1) \<Longrightarrow> config p1 = config p"
  "ensure_client ollama_initialize_client env p = (r, p1) \<Longrightarrow> config p1 = config p"
  by (auto simp: ensure_client_def qwen_initialize_client_def openai_initialize_client_def
      anthropic_initialize_client_def gemini_initialize_client_def ollama_initialize_client_def
      Let_def split: if_splits probe.splits)

lemma run_call_fails:
  "max_retries (config p) \<le> 0 \<Longrightarrow> isl (fst (run_call p call w))"
  by (simp add: run_call_no_retries)

lemma chat_fails:
  assumes "max_retries (config p) \<le> 0"
  shows "isl (fst (qwen_chat env p prompt sp w))"
    and "isl (fst (openai_chat env p prompt sp w))"
    and "isl (fst (anthropic_chat env p prompt sp w))"
    and "isl (fst (gemini_chat env p prompt sp w))"
    and "isl (fst (ollama_chat env p prompt sp w))"
  using assms
  by (auto simp: qwen_chat_def openai_chat_def anthropic_chat_def gemini_chat_def
      ollama_chat_def Let_def run_call_fails ensure_client_config
      split: prod.splits option.splits)

lemma vision_fails:
  assumes "max_retries (config p) \<le> 0"
  shows "isl (fst (qwen_vision env p img prompt fmt w))"
    and "isl (fst (openai_vision env p img prompt fmt w))"
    and "isl (fst (anthropic_vision env p img prompt fmt w))"
    and "isl (fst (gemini_vision env p img prompt fmt w))"
    and "isl (fst (ollama_vision env p img prompt fmt w))"
  using assms
  by (auto simp: qwen_vision_def openai_vision_def anthropic_vision_def gemini_vision_def
      ollama_vision_def Let_def run_call_fails ensure_client_config
      split: prod.splits option.splits)

lemma vision_uninvoked:
  assumes "invocations tr = 0"
  shows "qwen_vision env p img prompt fmt w = (res, p', w', tr) \<Longrightarrow>
           qwen_vision env p img prompt fmt2 w = (res, p', w', tr)"
    and "openai_vision env p img prompt fmt w = (res, p', w', tr) \<Longrightarrow>
           openai_vision env p img prompt fmt2 w = (res, p', w', tr)"
    and "anthropic_vision env p img prompt fmt w = (res, p', w', tr) \<Longrightarrow>
           anthropic_vision env p img prompt fmt2 w = (res, p', w', tr)"
    and "gemini_vision env p img prompt fmt w = (res, p', w', tr) \<Longrightarrow>
           gemini_vision env p img prompt fmt2 w = (res, p', w', tr)"
    and "ollama_vision env p img prompt fmt w = (res, p', w', tr) \<Longrightarrow>
           ollama_vision env p img prompt fmt2 w = (res, p', w', tr)"
  using assms
  by (auto simp: qwen_vision_def openai_vision_def anthropic_vision_def gemini_vision_def
      ollama_vision_def Let_def
      split: prod.splits option.splits elim: run_call_uninvoked)

lemma consistent_new_provider: "consistent (new_provider k cfg)"
  by (simp add: consistent_def new_provider_def)

lemma qwen_vision_facts:
  assumes run: "qwen_vision env p img prompt fmt w = (res, p', w', tr)"
  shows "\<exists>c m. new_requests w w' = replicate (invocations tr)
           (ChatCompletionsCreate c m
              [Message ''user'' (PartsContent
                 [ImageUrlPart (''data:image/'' @ fmt @ '';base64,'' @ b64encode img) None,
                  TextPart prompt])]
              (max_tokens (config p)) 0.1 None)"
    and "fst (ensure_client qwen_initialize_client env p) = None \<Longrightarrow>
           0 < max_retries (config p) \<Longrightarrow> 0 < invocations tr"
    and "\<forall>h1 h2. length h1 = length h2 \<longrightarrow> respond env h1 = respond env h2 \<Longrightarrow>
           \<exists>w2. qwen_vision env p img prompt fmt2 w = (res, p', w2, tr)"
proof -
  show "\<exists>c m. new_requests w w' = replicate (invocations tr)
           (ChatCompletionsCreate c m
              [Message ''user'' (PartsContent
                 [ImageUrlPart (''data:image/'' @ fmt @ '';base64,'' @ b64encode img) None,
                  TextPart prompt])]
              (max_tokens (config p)) 0.1 None)"
    using run
    unfolding qwen_vision_def ensure_client_def qwen_initialize_client_def Let_def
    by (auto split: if_splits option.splits prod.splits dest!: run_call_send(2))
  show "0 < invocations tr"
    if "fst (ensure_client qwen_initialize_client env p) = None"
      and "0 < max_retries (config p)"
    using run that
    by (auto simp: qwen_vision_def Let_def ensure_client_config
        split: prod.splits option.splits dest!: run_call_invoked)
  show "\<exists>w2. qwen_vision env p img prompt fmt2 w = (res, p', w2, tr)"
    if "\<forall>h1 h2. length h1 = length h2 \<longrightarrow> respond env h1 = respond env h2"
    using run run_call_insensitive [OF that]
    by (auto simp: qwen_vision_def Let_def split: prod.splits option.splits)
qed

lemma openai_vision_facts:
  assumes run: "openai_vision env p img prompt fmt w = (res, p', w', tr)"
  shows "\<exists>c m. new_requests w w' = replicate (invocations tr)
           (ChatCompletionsCreate c m
              [Message ''user'' (PartsContent
                 [ImageUrlPart (''data:image/'' @ fmt @ '';base64,'' @ b64encode img)
                    (Some ''high''),
                  TextPart prompt])]
              (max_tokens (config p)) 0.1 None)"
    and "fst (ensure_client openai_initialize_client env p) = None \<Longrightarrow>
           0 < max_retries (config p) \<Longrightarrow> 0 < invocations tr"
    and "\<forall>h1 h2. length h1 = length h2 \<longrightarrow> respond env h1 = respond env h2 \<Longrightarrow>
           \<exists>w2. openai_vision env p img prompt fmt2 w = (res, p', w2, tr)"
proof -
  show "\<exists>c m. new_requests w w' = replicate (invocations tr)
           (ChatCompletionsCreate c m
              [Message ''user'' (PartsContent
                 [ImageUrlPart (''data:image/'' @ fmt @ '';base64,'' @ b64encode img)
                    (Some ''high''),
                  TextPart prompt])]
              (max_tokens (config p)) 0.1 None)"
    using run
    unfolding openai_vision_def ensure_client_def openai_initialize_client_def Let_def
    by (auto split: if_splits option.splits prod.splits dest!: run_call_send(2))
  show "0 < invocations tr"
    if "fst (ensure_client openai_initialize_client env p) = None"
      and "0 < max_retries (config p)"
    using run that
    by (auto simp: openai_vision_def Let_def ensure_client_config
        split: prod.splits option.splits dest!: run_call_invoked)
  show "\<exists>w2. openai_vision env p img prompt fmt2 w = (res, p', w2, tr)"
    if "\<forall>h1 h2. length h1 = length h2 \<longrightarrow> respond env h1 = respond env h2"
    using run run_call_insensitive [OF that]
    by (auto simp: openai_vision_def Let_def split: prod.splits option.splits)
qed

lemma anthropic_vision_facts:
  assumes run: "anthropic_vision env p img prompt fmt w = (res, p', w', tr)"
  shows "\<exists>c m. new_requests w w' = replicate (invocations tr)
           (MessagesCreate c m (max_tokens (config p))
              [Message ''user'' (PartsContent
                 [ImagePart ''base64''
                    (case map_of media_type_map (lower fmt) of
                       None \<Rightarrow> ''image/png'' | Some t \<Rightarrow> t)
                    (b64encode img),
                  TextPart prompt])]
              0.1 None)"
    and "fst (ensure_client anthropic_initialize_client env p) = None \<Longrightarrow>
           0 < max_retries (config p) \<Longrightarrow> 0 < invocations tr"
    and "\<forall>h1 h2. length h1 = length h2 \<longrightarrow> respond env h1 = respond env h2 \<Longrightarrow>
           \<exists>w2. anthropic_vision env p img prompt fmt2 w = (res, p', w2, tr)"
proof -
  show "\<exists>c m. new_requests w w' = replicate (invocations tr)
           (MessagesCreate c m (max_tokens (config p))
              [Message ''user'' (PartsContent
                 [ImagePart ''base64''
                    (case map_of media_type_map (lower fmt) of
                       None \<Rightarrow> ''image/png'' | Some t \<Rightarrow> t)
                    (b64encode img),
                  TextPart prompt])]
              0.1 None)"
    using run
    unfolding anthropic_vision_def ensure_client_def anthropic_initialize_client_def Let_def
    by (auto split: if_splits option.splits prod.splits dest!: run_call_send(2))
  show "0 < invocations tr"
    if "fst (ensure_client anthropic_initialize_client env p) = None"
      and "0 < max_retries (config p)"
    using run that
    by (auto simp: anthropic_vision_def Let_def ensure_client_config
        split: prod.splits option.splits dest!: run_call_invoked)
  show "\<exists>w2. anthropic_vision env p img prompt fmt2 w = (res, p', w2, tr)"
    if "\<forall>h1 h2. length h1 = length h2 \<longrightarrow> respond env h1 = respond env h2"
    using run run_call_insensitive [OF that]
    by (auto simp: anthropic_vision_def Let_def split: prod.splits option.splits)
qed

lemma gemini_vision_facts:
  assumes run: "gemini_vision env p img prompt fmt w = (res, p', w', tr)"
    and kd: "kind p = Gemini"
  shows "\<exists>m n. new_requests w w' = replicate n
           (GenerateContent m [GeminiImage (''image/'' @ fmt) img, GeminiText prompt]
              0.1 None (max_tokens (config p))) \<and>
         (consistent p \<longrightarrow> n = invocations tr)"
    and "fst (ensure_client gemini_initialize_client env p) = None \<Longrightarrow>
           0 < max_retries (config p) \<Longrightarrow> 0 < invocations tr"
    and "\<forall>h1 h2. length h1 = length h2 \<longrightarrow> respond env h1 = respond env h2 \<Longrightarrow>
           \<exists>w2. gemini_vision env p img prompt fmt2 w = (res, p', w2, tr)"
proof -
  show "\<exists>m n. new_requests w w' = replicate n
           (GenerateContent m [GeminiImage (''image/'' @ fmt) img, GeminiText prompt]
              0.1 None (max_tokens (config p))) \<and>
         (consistent p \<longrightarrow> n = invocations tr)"
    using run kd
    unfolding gemini_vision_def ensure_client_def gemini_initialize_client_def Let_def consistent_def
    by (auto split: if_splits option.splits prod.splits
        dest!: run_call_send(2) run_call_no_attribute intro: exI [of _ 0])
  show "0 < invocations tr"
    if "fst (ensure_client gemini_initialize_client env p) = None"
      and "0 < max_retries (config p)"
    using run that
    by (auto simp: gemini_vision_def Let_def ensure_client_config
        split: prod.splits option.splits dest!: run_call_invoked)
  show "\<exists>w2. gemini_vision env p img prompt fmt2 w = (res, p', w2, tr)"
    if "\<forall>h1 h2. length h1 = length h2 \<longrightarrow> respond env h1 = respond env h2"
    using run run_call_insensitive [OF that]
    by (auto simp: gemini_vision_def Let_def split: prod.splits option.splits)
qed

lemma ollama_vision_facts:
  assumes run: "ollama_vision env p img prompt fmt w = (res, p', w', tr)"
    and kd: "kind p = Ollama"
  shows "\<exists>u m n. new_requests w w' = replicate n
           (OllamaPost u m prompt (Some [b64encode img]) True 0.1 None
              (max_tokens (config p)) None) \<and>
         (consistent p \<longrightarrow> n = invocations tr)"
    and "fst (ensure_client ollama_initialize_client env p) = None \<Longrightarrow>
           0 < max_retries (config p) \<Longrightarrow> 0 < invocations tr"
    and "\<forall>h1 h2. length h1 = length h2 \<longrightarrow> respond env h1 = respond env h2 \<Longrightarrow>
           \<exists>w2. ollama_vision env p img prompt fmt2 w = (res, p', w2, tr)"
proof -
  show "\<exists>u m n. new_requests w w' = replicate n
           (OllamaPost u m prompt (Some [b64encode img]) True 0.1 None
              (max_tokens (config p)) None) \<and>
         (consistent p \<longrightarrow> n = invocations tr)"
    using run kd
    unfolding ollama_vision_def ensure_client_def ollama_initialize_client_def Let_def consistent_def
    by (auto split: if_splits option.splits prod.splits probe.splits
        dest!: run_call_send(2) run_call_no_attribute intro: exI [of _ 0])
  show "0 < invocations tr"
    if "fst (ensure_client ollama_initialize_client env p) = None"
      and "0 < max_retries (config p)"
    using run that
    by (auto simp: ollama_vision_def Let_def ensure_client_config
        split: prod.splits option.splits dest!: run_call_invoked)
  show "\<exists>w2. ollama_vision env p img prompt fmt2 w = (res, p', w2, tr)"
    if "\<forall>h1 h2. length h1 = length h2 \<longrightarrow> respond env h1 = respond env h2"
    using run run_call_insensitive [OF that]
    by (auto simp: ollama_vision_def Let_def split: prod.splits option.splits)
qed

lemma ensure_client_dispatch:
  "kind p = Qwen \<Longrightarrow>
     ensure_client initialize_client env p = ensure_client qwen_initialize_client env p"
  "kind p = Gemini \<Longrightarrow>
     ensure_client initialize_client env p = ensure_client gemini_initialize_client env p"
  "kind p = OpenAI \<Longrightarrow>
     ensure_client initialize_client env p = ensure_client openai_initialize_client env p"
  "kind p = Anthropic \<Longrightarrow>
     ensure_client initialize_client env p = ensure_client anthropic_initialize_client env p"
  "kind p = Ollama \<Longrightarrow>
     ensure_client initialize_client env p = ensure_client ollama_initialize_client env p"
  by (simp_all add: ensure_client_def initialize_client_def)

lemma vision_consistent:
  assumes "vision env p img prompt fmt w = (res, p', w', tr)" and "consistent p"
  shows "consistent p'"
  using assms
  by (cases "kind p")
    (auto simp: vision_def qwen_vision_def openai_vision_def anthropic_vision_def
      gemini_vision_def ollama_vision_def Let_def run_call_def ensure_client_def
      qwen_initialize_client_def openai_initialize_client_def anthropic_initialize_client_def
      gemini_initialize_client_def ollama_initialize_client_def consistent_def
      split: prod.splits option.splits if_splits probe.splits)

lemma chat_consistent:
  assumes "chat env p prompt sp w = (res, p', w', tr)" and "consistent p"
  shows "consistent p'"
  using assms
  by (cases "kind p")
    (auto simp: chat_def qwen_chat_def openai_chat_def anthropic_chat_def
      gemini_chat_def ollama_chat_def Let_def run_call_def ensure_client_def
      qwen_initialize_client_def openai_initialize_client_def anthropic_initialize_client_def
      gemini_initialize_client_def ollama_initialize_client_def consistent_def
      split: prod.splits option.splits if_splits probe.splits)

lemma vision_request_count:
  assumes "vision env p image_data prompt image_format w = (res, p', w', tr)"
  shows "(consistent p \<longrightarrow> length (new_requests w w') = invocations tr) \<and>
         (fst (ensure_client initialize_client env p) = None \<and> 0 < max_retries (config p) \<longrightarrow>
            0 < invocations tr)"
proof (cases "kind p")
  case Qwen
  with assms have run: "qwen_vision env p image_data prompt image_format w = (res, p', w', tr)"
    by (simp add: vision_def)
  from qwen_vision_facts(1,2) [OF run] show ?thesis
    by (auto simp: ensure_client_dispatch(1) [OF Qwen])
next
  case Gemini
  with assms have run: "gemini_vision env p image_data prompt image_format w = (res, p', w', tr)"
    by (simp add: vision_def)
  from gemini_vision_facts(1,2) [OF run Gemini] show ?thesis
    by (auto simp: ensure_client_dispatch(2) [OF Gemini])
next
  case OpenAI
  with assms have run: "openai_vision env p image_data prompt image_format w = (res, p', w', tr)"
    by (simp add: vision_def)
  from openai_vision_facts(1,2) [OF run] show ?thesis
    by (auto simp: ensure_client_dispatch(3) [OF OpenAI])
next
  case Anthropic
  with assms have run:
    "anthropic_vision env p image_data prompt image_format w = (res, p', w', tr)"
    by (simp add: vision_def)
  from anthropic_vision_facts(1,2) [OF run] show ?thesis
    by (auto simp: ensure_client_dispatch(4) [OF Anthropic])
next
  case Ollama
  with assms have run: "ollama_vision env p image_data prompt image_format w = (res, p', w', tr)"
    by (simp add: vision_def)
  from ollama_vision_facts(1,2) [OF run Ollama] show ?thesis
    by (auto simp: ensure_client_dispatch(5) [OF Ollama])
qed

subsection \<open>Sample runs\<close>

lemma str_int_3: "str_int 3 = ''3''"
  by (simp add: str_int_def str_nat.simps digit_char_def)

lemma retry_first_call_returns:
  "0 < max_retries cfg \<Longrightarrow> func w = (Returned v, w') \<Longrightarrow>
     retry_with_backoff cfg nm func w = (Inr v, w', [Invoked])"
  by (simp add: retry_with_backoff_def retry_loop.simps)

lemma sent_empty_world: "sent empty_world = []"
  by (simp add: empty_world_def)

lemma b64encode_sample_image: "b64encode sample_image = ''TWFu''"
  by (simp add: sample_image_def b64_char_def b64_alphabet_def)

lemma openai_bmp_run:
  "vision friendly_env (new_provider OpenAI default_config) sample_image ''read'' ''bmp''
     empty_world =
   (Inr ''ok'',
    (new_provider OpenAI default_config)\<lparr>client := Some (OpenAIClient [] None)\<rparr>,
    \<lparr>sent = [ChatCompletionsCreate (OpenAIClient [] None) ''gpt-4o''
        [Message ''user'' (PartsContent
           [ImageUrlPart ''data:image/bmp;base64,TWFu'' (Some ''high''), TextPart ''read''])]
        4096 0.1 None]\<rparr>,
    [Invoked])"
  by (simp add: vision_def openai_vision_def ensure_client_def openai_initialize_client_def
      new_provider_def friendly_env_def run_call_def retry_first_call_returns send_def
      default_config_def empty_world_def b64encode_sample_image or_str_def)

lemma openai_tiff_run:
  "vision friendly_env (new_provider OpenAI default_config) sample_image ''read'' ''tiff''
     empty_world =
   (Inr ''ok'',
    (new_provider OpenAI default_config)\<lparr>client := Some (OpenAIClient [] None)\<rparr>,
    \<lparr>sent = [ChatCompletionsCreate (OpenAIClient [] None) ''gpt-4o''
        [Message ''user'' (PartsContent
           [ImageUrlPart ''data:image/tiff;base64,TWFu'' (Some ''high''), TextPart ''read''])]
        4096 0.1 None]\<rparr>,
    [Invoked])"
  by (simp add: vision_def openai_vision_def ensure_client_def openai_initialize_client_def
      new_provider_def friendly_env_def run_call_def retry_first_call_returns send_def
      default_config_def empty_world_def b64encode_sample_image or_str_def)

lemma anthropic_bmp_run:
  "vision friendly_env (new_provider Anthropic (default_config\<lparr>temperature := 1.5\<rparr>))
     sample_image ''read'' ''bmp'' empty_world =
   (Inr ''ok'',
    (new_provider Anthropic (default_config\<lparr>temperature := 1.5\<rparr>))
      \<lparr>client := Some (AnthropicClient [])\<rparr>,
    \<lparr>sent = [MessagesCreate (AnthropicClient []) ''claude-sonnet-4-20250514'' 4096
        [Message ''user'' (PartsContent
           [ImagePart ''base64'' ''image/png'' ''TWFu'', TextPart ''read''])]
        0.1 None]\<rparr>,
    [Invoked])"
  by (simp add: vision_def anthropic_vision_def ensure_client_def
      anthropic_initialize_client_def new_provider_def friendly_env_def run_call_def
      retry_first_call_returns send_def default_config_def empty_world_def
      b64encode_sample_image or_str_def media_type_map_def lower_def lower_char_def
      capitals_def smalls_def)

lemma qwen_bmp_run:
  "vision friendly_env (new_provider Qwen default_config) sample_image ''read'' ''bmp''
     empty_world =
   (Inr ''ok'',
    (new_provider Qwen default_config)\<lparr>client := Some (OpenAIClient []
       (Some ''https://dashscope.aliyuncs.com/compatible-mode/v1''))\<rparr>,
    \<lparr>sent = [ChatCompletionsCreate
        (OpenAIClient [] (Some ''https://dashscope.aliyuncs.com/compatible-mode/v1''))
        ''qwen-vl-plus''
        [Message ''user'' (PartsContent
           [ImageUrlPart ''data:image/bmp;base64,TWFu'' None, TextPart ''read''])]
        4096 0.1 None]\<rparr>,
    [Invoked])"
  by (simp add: vision_def qwen_vision_def ensure_client_def qwen_initialize_client_def
      new_provider_def friendly_env_def run_call_def retry_first_call_returns send_def
      default_config_def empty_world_def b64encode_sample_image or_str_def)

lemma gemini_bmp_run:
  "vision friendly_env (new_provider Gemini default_config) sample_image ''read'' ''bmp''
     empty_world =
   (Inr ''ok'',
    (new_provider Gemini default_config)
      \<lparr>genai_key := Some [], vision_model_attr := Some ''gemini-2.0-flash'',
       language_model_attr := Some ''gemini-2.0-flash''\<rparr>,
    \<lparr>sent = [GenerateContent ''gemini-2.0-flash''
        [GeminiImage ''image/bmp'' sample_image, GeminiText ''read''] 0.1 None 4096]\<rparr>,
    [Invoked])"
  by (simp add: vision_def gemini_vision_def ensure_client_def gemini_initialize_client_def
      new_provider_def friendly_env_def run_call_def retry_first_call_returns send_def
      default_config_def empty_world_def or_str_def)

lemma ollama_bmp_run:
  "vision friendly_env (new_provider Ollama default_config) sample_image ''read'' ''bmp''
     empty_world =
   (Inr ''ok'',
    (new_provider Ollama default_config)
      \<lparr>base_url_attr := Some ''http://localhost:11434'', client := Some OllamaReady\<rparr>,
    \<lparr>sent = [OllamaPost ''http://localhost:11434/api/generate'' ''llava'' ''read''
        (Some [''TWFu'']) True 0.1 None 4096 None]\<rparr>,
    [Invoked])"
  by (simp add: vision_def ollama_vision_def ensure_client_def ollama_initialize_client_def
      new_provider_def friendly_env_def run_call_def retry_first_call_returns send_def
      default_config_def empty_world_def b64encode_sample_image or_str_def rstrip_chars_def
      Let_def)

lemma gemini_hostile_run:
  "vision hostile_env (new_provider Gemini (default_config\<lparr>temperature := 1.5\<rparr>))
     sample_image ''read'' ''png'' empty_world =
   (Inl (RuntimeError ''All 3 retries failed for gemini: timed out''),
    (new_provider Gemini (default_config\<lparr>temperature := 1.5\<rparr>))
      \<lparr>genai_key := Some [], vision_model_attr := Some ''gemini-2.0-flash'',
       language_model_attr := Some ''gemini-2.0-flash''\<rparr>,
    \<lparr>sent = replicate 3 (GenerateContent ''gemini-2.0-flash''
        [GeminiImage ''image/png'' sample_image, GeminiText ''read''] 0.1 None 4096)\<rparr>,
    [Invoked, Printed 1 3 1 ''timed out'', Slept 1,
     Invoked, Printed 2 3 2 ''timed out'', Slept 2, Invoked])"
  by (simp add: vision_def gemini_vision_def ensure_client_def gemini_initialize_client_def
      new_provider_def hostile_env_def run_call_def retry_with_backoff_def retry_loop.simps
      send_def default_config_def empty_world_def or_str_def str_int_3 numeral_3_eq_3
      sleep_limit_def)

subsection \<open>Retry policy\<close>







subsection \<open>Configuration\<close>



subsection \<open>Vision requests\<close>

text \<open>
  Claim C4. For each of the five providers and whatever the configured temperature, every
  request that \<open>vision\<close> issues to the vendor carries the sampling temperature \<open>0.1\<close>. The
  requests are really issued: each invocation of the wrapped call sends one, and when the
  client initialises and \<open>max_retries\<close> is positive there is at least one invocation.
\<close>

theorem vision_temperature_fixed:
  assumes "vision env p image_data prompt image_format w = (res, p', w', tr)"
  shows "(\<forall>r \<in> set (new_requests w w'). request_temperature r = 0.1) \<and>
         (consistent p \<longrightarrow> length (new_requests w w') = invocations tr) \<and>
         (fst (ensure_client initialize_client env p) = None \<and> 0 < max_retries (config p) \<longrightarrow>
            0 < invocations tr)"
proof (cases "kind p")
  case Qwen
  with assms have run: "qwen_vision env p image_data prompt image_format w = (res, p', w', tr)"
    by (simp add: vision_def)
  from qwen_vision_facts(1,2) [OF run] show ?thesis
    by (auto simp: ensure_client_dispatch(1) [OF Qwen])
next
  case Gemini
  with assms have run: "gemini_vision env p image_data prompt image_format w = (res, p', w', tr)"
    by (simp add: vision_def)
  from gemini_vision_facts(1,2) [OF run Gemini] show ?thesis
    by (auto simp: ensure_client_dispatch(2) [OF Gemini])
next
  case OpenAI
  with assms have run: "openai_vision env p image_data prompt image_format w = (res, p', w', tr)"
    by (simp add: vision_def)
  from openai_vision_facts(1,2) [OF run] show ?thesis
    by (auto simp: ensure_client_dispatch(3) [OF OpenAI])
next
  case Anthropic
  with assms have run:
    "anthropic_vision env p image_data prompt image_format w = (res, p', w', tr)"
    by (simp add: vision_def)
  from anthropic_vision_facts(1,2) [OF run] show ?thesis
    by (auto simp: ensure_client_dispatch(4) [OF Anthropic])
next
  case Ollama
  with assms have run: "ollama_vision env p image_data prompt image_format w = (res, p', w', tr)"
    by (simp add: vision_def)
  from ollama_vision_facts(1,2) [OF run Ollama] show ?thesis
    by (auto simp: ensure_client_dispatch(5) [OF Ollama])
qed

theorem vision_temperature_fixed_witness:
  "map request_temperature
     (new_requests empty_world
        (fst (snd (snd (vision hostile_env
           (new_provider Gemini (default_config\<lparr>temperature := 1.5\<rparr>))
           sample_image ''read'' ''png'' empty_world))))) = [0.1, 0.1, 0.1] \<and>
   map request_temperature
     (new_requests empty_world
        (fst (snd (snd (vision friendly_env (new_provider Qwen default_config)
           sample_image ''read'' ''bmp'' empty_world))))) = [0.1] \<and>
   map request_temperature
     (new_requests empty_world
        (fst (snd (snd (vision friendly_env (new_provider OpenAI default_config)
           sample_image ''read'' ''bmp'' empty_world))))) = [0.1] \<and>
   map request_temperature
     (new_requests empty_world
        (fst (snd (snd (vision friendly_env
           (new_provider Anthropic (default_config\<lparr>temperature := 1.5\<rparr>))
           sample_image ''read'' ''bmp'' empty_world))))) = [0.1] \<and>
   map request_temperature
     (new_requests empty_world
        (fst (snd (snd (vision friendly_env (new_provider Ollama default_config)
           sample_image ''read'' ''bmp'' empty_world))))) = [0.1] \<and>
   temperature default_config = 0.7"
proof -
  have g: "map request_temperature
     (new_requests empty_world
        (fst (snd (snd (vision hostile_env
           (new_provider Gemini (default_config\<lparr>temperature := 1.5\<rparr>))
           sample_image ''read'' ''png'' empty_world))))) = [0.1, 0.1, 0.1]"
    using vision_temperature_fixed [OF gemini_hostile_run]
    by (subst gemini_hostile_run) (simp add: new_requests_def sent_empty_world numeral_3_eq_3)
  have q: "map request_temperature
     (new_requests empty_world
        (fst (snd (snd (vision friendly_env (new_provider Qwen default_config)
           sample_image ''read'' ''bmp'' empty_world))))) = [0.1]"
    using vision_temperature_fixed [OF qwen_bmp_run]
    by (subst qwen_bmp_run) (simp add: new_requests_def sent_empty_world)
  have o: "map request_temperature
     (new_requests empty_world
        (fst (snd (snd (vision friendly_env (new_provider OpenAI default_config)
           sample_image ''read'' ''bmp'' empty_world))))) = [0.1]"
    using vision_temperature_fixed [OF openai_bmp_run]
    by (subst openai_bmp_run) (simp add: new_requests_def sent_empty_world)
  have a: "map request_temperature
     (new_requests empty_world
        (fst (snd (snd (vision friendly_env
           (new_provider Anthropic (default_config\<lparr>temperature := 1.5\<rparr>))
           sample_image ''read'' ''bmp'' empty_world))))) = [0.1]"
    using vision_temperature_fixed [OF anthropic_bmp_run]
    by (subst anthropic_bmp_run) (simp add: new_requests_def sent_empty_world)
  have l: "map request_temperature
     (new_requests empty_world
        (fst (snd (snd (vision friendly_env (new_provider Ollama default_config)
           sample_image ''read'' ''bmp'' empty_world))))) = [0.1]"
    using vision_temperature_fixed [OF ollama_bmp_run]
    by (subst ollama_bmp_run) (simp add: new_requests_def sent_empty_world)
  have cfg: "temperature default_config = 0.7"
    by (simp add: default_config_def)
  from g q o a l cfg show ?thesis by blast
qed

text \<open>
  Claim C8, as stated, fails: the OpenAI provider (and likewise Qwen and Gemini) puts the
  given format into the request unchanged, so an unsupported format such as \<open>bmp\<close> or
  \<open>tiff\<close> is named in the data URL and no default takes its place.
\<close>

theorem vision_default_mime_counterexample:
  "map request_image_urls
     (sent (fst (snd (snd (vision friendly_env (new_provider OpenAI default_config)
        sample_image ''read'' ''bmp'' empty_world))))) = [[''data:image/bmp;base64,TWFu'']] \<and>
   map request_image_urls
     (sent (fst (snd (snd (vision friendly_env (new_provider OpenAI default_config)
        sample_image ''read'' ''tiff'' empty_world))))) = [[''data:image/tiff;base64,TWFu'']] \<and>
   ''bmp'' \<notin> {''png'', ''jpg'', ''jpeg'', ''gif'', ''webp''} \<and>
   ''tiff'' \<notin> {''png'', ''jpg'', ''jpeg'', ''gif'', ''webp''}"
  by (subst openai_bmp_run, subst openai_tiff_run) simp

text \<open>
  Claim C8, amended. \<open>vision\<close> has no check of the format, for any provider. For a format
  whose lower-case form is not one of png, jpg, jpeg, gif, webp, the Anthropic provider
  names the default media type \<open>image/png\<close>; the OpenAI and Qwen providers name
  \<open>image/<format>\<close> in the data URL and the Gemini provider as the MIME type, with the
  format as given; the Ollama provider sends the encoded image with no type at all. The
  request is issued at every invocation of the wrapped call, and there is an invocation
  whenever the client initialises and \<open>max_retries\<close> is positive. The format decides
  nothing else: a call that ends before any invocation ends the same way for every
  format, and when the vendor's answers do not depend on what is asked, the result and
  the retry log are the same for every format.
\<close>

theorem vision_image_format_handling:
  assumes "vision env p image_data prompt image_format w = (res, p', w', tr)"
  shows "(\<forall>r \<in> set (new_requests w w').
            (case kind p of
               Anthropic \<Rightarrow>
                 (lower image_format \<notin> {''png'', ''jpg'', ''jpeg'', ''gif'', ''webp''} \<longrightarrow>
                    request_media_types r = [''image/png'']) \<and>
                 request_image_urls r = []
             | Gemini \<Rightarrow> request_media_types r = [''image/'' @ image_format]
             | Ollama \<Rightarrow>
                 request_media_types r = [] \<and> request_image_urls r = [] \<and>
                 request_image_data r = [b64encode image_data]
             | _ \<Rightarrow>
                 request_image_urls r =
                   [''data:image/'' @ image_format @ '';base64,'' @ b64encode image_data])) \<and>
         (consistent p \<longrightarrow> length (new_requests w w') = invocations tr) \<and>
         (fst (ensure_client initialize_client env p) = None \<and> 0 < max_retries (config p) \<longrightarrow>
            0 < invocations tr) \<and>
         (invocations tr = 0 \<longrightarrow>
            (\<forall>fmt2. vision env p image_data prompt fmt2 w = (res, p', w', tr))) \<and>
         ((\<forall>h1 h2. length h1 = length h2 \<longrightarrow> respond env h1 = respond env h2) \<longrightarrow>
            (\<forall>fmt2. \<exists>w2. vision env p image_data prompt fmt2 w = (res, p', w2, tr)))"
proof -
  let ?shape = "\<lambda>r. (case kind p of
               Anthropic \<Rightarrow>
                 (lower image_format \<notin> {''png'', ''jpg'', ''jpeg'', ''gif'', ''webp''} \<longrightarrow>
                    request_media_types r = [''image/png'']) \<and>
                 request_image_urls r = []
             | Gemini \<Rightarrow> request_media_types r = [''image/'' @ image_format]
             | Ollama \<Rightarrow>
                 request_media_types r = [] \<and> request_image_urls r = [] \<and>
                 request_image_data r = [b64encode image_data]
             | _ \<Rightarrow>
                 request_image_urls r =
                   [''data:image/'' @ image_format @ '';base64,'' @ b64encode image_data])"
  have dflt: "lower image_format \<notin> {''png'', ''jpg'', ''jpeg'', ''gif'', ''webp''} \<Longrightarrow>
      map_of media_type_map (lower image_format) = None"
    by (simp add: media_type_map_def)
  have shape: "\<forall>r \<in> set (new_requests w w'). ?shape r"
  proof (cases "kind p")
    case Qwen
    with assms have run: "qwen_vision env p image_data prompt image_format w = (res, p', w', tr)"
      by (simp add: vision_def)
    from qwen_vision_facts(1) [OF run] Qwen show ?thesis by auto
  next
    case Gemini
    with assms have run:
      "gemini_vision env p image_data prompt image_format w = (res, p', w', tr)"
      by (simp add: vision_def)
    from gemini_vision_facts(1) [OF run Gemini] Gemini show ?thesis by auto
  next
    case OpenAI
    with assms have run:
      "openai_vision env p image_data prompt image_format w = (res, p', w', tr)"
      by (simp add: vision_def)
    from openai_vision_facts(1) [OF run] OpenAI show ?thesis by auto
  next
    case Anthropic
    with assms have run:
      "anthropic_vision env p image_data prompt image_format w = (res, p', w', tr)"
      by (simp add: vision_def)
    from anthropic_vision_facts(1) [OF run] Anthropic dflt show ?thesis by auto
  next
    case Ollama
    with assms have run:
      "ollama_vision env p image_data prompt image_format w = (res, p', w', tr)"
      by (simp add: vision_def)
    from ollama_vision_facts(1) [OF run Ollama] Ollama show ?thesis by auto
  qed
  have issued: "(consistent p \<longrightarrow> length (new_requests w w') = invocations tr) \<and>
         (fst (ensure_client initialize_client env p) = None \<and> 0 < max_retries (config p) \<longrightarrow>
            0 < invocations tr)"
    using vision_request_count [OF assms] by simp
  have early: "vision env p image_data prompt fmt2 w = (res, p', w', tr)"
    if "invocations tr = 0" for fmt2
  proof (cases "kind p")
    case Qwen
    with assms vision_uninvoked(1) [OF that, of env p image_data prompt image_format w res p' w']
    show ?thesis by (simp add: vision_def)
  next
    case Gemini
    with assms vision_uninvoked(4) [OF that, of env p image_data prompt image_format w res p' w']
    show ?thesis by (simp add: vision_def)
  next
    case OpenAI
    with assms vision_uninvoked(2) [OF that, of env p image_data prompt image_format w res p' w']
    show ?thesis by (simp add: vision_def)
  next
    case Anthropic
    with assms vision_uninvoked(3) [OF that, of env p image_data prompt image_format w res p' w']
    show ?thesis by (simp add: vision_def)
  next
    case Ollama
    with assms vision_uninvoked(5) [OF that, of env p image_data prompt image_format w res p' w']
    show ?thesis by (simp add: vision_def)
  qed
  have same: "\<exists>w2. vision env p image_data prompt fmt2 w = (res, p', w2, tr)"
    if ins: "\<forall>h1 h2. length h1 = length h2 \<longrightarrow> respond env h1 = respond env h2" for fmt2
  proof (cases "kind p")
    case Qwen
    with assms have run: "qwen_vision env p image_data prompt image_format w = (res, p', w', tr)"
      by (simp add: vision_def)
    from qwen_vision_facts(3) [OF run ins, of fmt2] Qwen show ?thesis
      by (simp add: vision_def)
  next
    case Gemini
    with assms have run:
      "gemini_vision env p image_data prompt image_format w = (res, p', w', tr)"
      by (simp add: vision_def)
    from gemini_vision_facts(3) [OF run Gemini ins, of fmt2] Gemini show ?thesis
      by (simp add: vision_def)
  next
    case OpenAI
    with assms have run:
      "openai_vision env p image_data prompt image_format w = (res, p', w', tr)"
      by (simp add: vision_def)
    from openai_vision_facts(3) [OF run ins, of fmt2] OpenAI show ?thesis
      by (simp add: vision_def)
  next
    case Anthropic
    with assms have run:
      "anthropic_vision env p image_data prompt image_format w = (res, p', w', tr)"
      by (simp add: vision_def)
    from anthropic_vision_facts(3) [OF run ins, of fmt2] Anthropic show ?thesis
      by (simp add: vision_def)
  next
    case Ollama
    with assms have run:
      "ollama_vision env p image_data prompt image_format w = (res, p', w', tr)"
      by (simp add: vision_def)
    from ollama_vision_facts(3) [OF run Ollama ins, of fmt2] Ollama show ?thesis
      by (simp add: vision_def)
  qed
  from shape issued early same show ?thesis by blast
qed

theorem vision_image_format_handling_witness:
  "map request_media_types
     (new_requests empty_world
        (fst (snd (snd (vision friendly_env
           (new_provider Anthropic (default_config\<lparr>temperature := 1.5\<rparr>))
           sample_image ''read'' ''bmp'' empty_world))))) = [[''image/png'']] \<and>
   map request_image_urls
     (new_requests empty_world
        (fst (snd (snd (vision friendly_env (new_provider Qwen default_config)
           sample_image ''read'' ''bmp'' empty_world))))) = [[''data:image/bmp;base64,TWFu'']] \<and>
   map request_media_types
     (new_requests empty_world
        (fst (snd (snd (vision friendly_env (new_provider Gemini default_config)
           sample_image ''read'' ''bmp'' empty_world))))) = [[''image/bmp'']] \<and>
   map request_image_data
     (new_requests empty_world
        (fst (snd (snd (vision friendly_env (new_provider Ollama default_config)
           sample_image ''read'' ''bmp'' empty_world))))) = [[''TWFu'']] \<and>
   lower ''bmp'' \<notin> {''png'', ''jpg'', ''jpeg'', ''gif'', ''webp''}"
proof -
  have fmt: "lower ''bmp'' \<notin> {''png'', ''jpg'', ''jpeg'', ''gif'', ''webp''}"
    by (simp add: lower_def lower_char_def capitals_def)
  have a: "map request_media_types
     (new_requests empty_world
        (fst (snd (snd (vision friendly_env
           (new_provider Anthropic (default_config\<lparr>temperature := 1.5\<rparr>))
           sample_image ''read'' ''bmp'' empty_world))))) = [[''image/png'']]"
    using vision_image_format_handling [OF anthropic_bmp_run] fmt
    by (subst anthropic_bmp_run) (simp add: new_requests_def sent_empty_world)
  have q: "map request_image_urls
     (new_requests empty_world
        (fst (snd (snd (vision friendly_env (new_provider Qwen default_config)
           sample_image ''read'' ''bmp'' empty_world))))) = [[''data:image/bmp;base64,TWFu'']]"
    using vision_image_format_handling [OF qwen_bmp_run]
    by (subst qwen_bmp_run) (simp add: new_requests_def sent_empty_world)
  have g: "map request_media_types
     (new_requests empty_world
        (fst (snd (snd (vision friendly_env (new_provider Gemini default_config)
           sample_image ''read'' ''bmp'' empty_world))))) = [[''image/bmp'']]"
    using vision_image_format_handling [OF gemini_bmp_run]
    by (subst gemini_bmp_run) (simp add: new_requests_def sent_empty_world)
  have l: "map request_image_data
     (new_requests empty_world
        (fst (snd (snd (vision friendly_env (new_provider Ollama default_config)
           sample_image ''read'' ''bmp'' empty_world))))) = [[''TWFu'']]"
    using vision_image_format_handling [OF ollama_bmp_run]
    by (subst ollama_bmp_run) (simp add: new_requests_def sent_empty_world)
  from a q g l fmt show ?thesis by blast
qed

text \<open>
  Claim C9. For the OpenAI, Anthropic and Qwen providers and every byte string \<open>b\<close>, each
  request that \<open>vision\<close> issues embeds a base64 text (after the \<open>data:image/...;base64,\<close>
  prefix of the URL, or as the \<open>data\<close> of the image source) whose decoding is exactly \<open>b\<close>.
  Each invocation of the wrapped call issues such a request, and there is an invocation
  whenever the client initialises and \<open>max_retries\<close> is positive.
\<close>

theorem vision_base64_round_trip:
  assumes "vision env p b prompt image_format w = (res, p', w', tr)"
    and "kind p = OpenAI \<or> kind p = Anthropic \<or> kind p = Qwen"
  shows "(\<forall>r \<in> set (new_requests w w').
            \<exists>payload. b64decode payload = Some b \<and>
              (if kind p = Anthropic then request_image_data r = [payload]
               else request_image_urls r =
                      [''data:image/'' @ image_format @ '';base64,'' @ payload])) \<and>
         length (new_requests w w') = invocations tr \<and>
         (fst (ensure_client initialize_client env p) = None \<and> 0 < max_retries (config p) \<longrightarrow>
            0 < invocations tr)"
proof -
  have live: "fst (ensure_client initialize_client env p) = None \<and> 0 < max_retries (config p) \<longrightarrow>
      0 < invocations tr"
    using vision_request_count [OF assms(1)] by simp
  consider "kind p = OpenAI" | "kind p = Anthropic" | "kind p = Qwen"
    using assms(2) by blast
  then have "(\<forall>r \<in> set (new_requests w w').
            \<exists>payload. b64decode payload = Some b \<and>
              (if kind p = Anthropic then request_image_data r = [payload]
               else request_image_urls r =
                      [''data:image/'' @ image_format @ '';base64,'' @ payload])) \<and>
         length (new_requests w w') = invocations tr"
  proof cases
    case 1
    with assms have "openai_vision env p b prompt image_format w = (res, p', w', tr)"
      by (simp add: vision_def)
    from openai_vision_facts(1) [OF this] 1 show ?thesis
      by (auto intro!: exI [of _ "b64encode b"] simp: b64decode_encode)
  next
    case 2
    with assms have "anthropic_vision env p b prompt image_format w = (res, p', w', tr)"
      by (simp add: vision_def)
    from anthropic_vision_facts(1) [OF this] 2 show ?thesis
      by (auto intro!: exI [of _ "b64encode b"] simp: b64decode_encode)
  next
    case 3
    with assms have "qwen_vision env p b prompt image_format w = (res, p', w', tr)"
      by (simp add: vision_def)
    from qwen_vision_facts(1) [OF this] 3 show ?thesis
      by (auto intro!: exI [of _ "b64encode b"] simp: b64decode_encode)
  qed
  with live show ?thesis by blast
qed

theorem vision_base64_round_trip_witness:
  "map request_image_urls
     (new_requests empty_world
        (fst (snd (snd (vision friendly_env (new_provider OpenAI default_config)
           sample_image ''read'' ''bmp'' empty_world))))) =
     [[''data:image/bmp;base64,TWFu'']] \<and>
   map request_image_urls
     (new_requests empty_world
        (fst (snd (snd (vision friendly_env (new_provider Qwen default_config)
           sample_image ''read'' ''bmp'' empty_world))))) =
     [[''data:image/bmp;base64,TWFu'']] \<and>
   map request_image_data
     (new_requests empty_world
        (fst (snd (snd (vision friendly_env
           (new_provider Anthropic (default_config\<lparr>temperature := 1.5\<rparr>))
           sample_image ''read'' ''bmp'' empty_world))))) = [[''TWFu'']] \<and>
   b64decode (b64encode sample_image) = Some sample_image \<and>
   b64encode sample_image = ''TWFu''"
proof -
  have o: "map request_image_urls
     (new_requests empty_world
        (fst (snd (snd (vision friendly_env (new_provider OpenAI default_config)
           sample_image ''read'' ''bmp'' empty_world))))) =
     [[''data:image/bmp;base64,TWFu'']]"
    using vision_base64_round_trip [OF openai_bmp_run]
    by (subst openai_bmp_run) (simp add: new_requests_def sent_empty_world)
  have q: "map request_image_urls
     (new_requests empty_world
        (fst (snd (snd (vision friendly_env (new_provider Qwen default_config)
           sample_image ''read'' ''bmp'' empty_world))))) =
     [[''data:image/bmp;base64,TWFu'']]"
    using vision_base64_round_trip [OF qwen_bmp_run]
    by (subst qwen_bmp_run) (simp add: new_requests_def sent_empty_world)
  have a: "map request_image_data
     (new_requests empty_world
        (fst (snd (snd (vision friendly_env
           (new_provider Anthropic (default_config\<lparr>temperature := 1.5\<rparr>))
           sample_image ''read'' ''bmp'' empty_world))))) = [[''TWFu'']]"
    using vision_base64_round_trip [OF anthropic_bmp_run]
    by (subst anthropic_bmp_run) (simp add: new_requests_def sent_empty_world)
  have d: "b64decode (b64encode sample_image) = Some sample_image"
    by (rule b64decode_encode)
  from o q a d b64encode_sample_image show ?thesis by blast
qed

subsection \<open>Capability flag of Ollama\<close>

lemma startswith_iff: "startswith s m \<longleftrightarrow> (\<exists>post. s = m @ post)"
  by (induction s m rule: startswith.induct) auto

lemma str_in_iff: "str_in m s \<longleftrightarrow> (\<exists>pre post. s = pre @ m @ post)"
proof (induction s)
  case Nil
  show ?case by auto
next
  case (Cons c cs)
  have "(\<exists>pre post. c # cs = pre @ m @ post) \<longleftrightarrow>
        (\<exists>post. c # cs = m @ post) \<or> (\<exists>pre post. cs = pre @ m @ post)"
  proof
    assume "\<exists>pre post. c # cs = pre @ m @ post"
    then obtain pre post where eq: "c # cs = pre @ m @ post" by blast
    show "(\<exists>post. c # cs = m @ post) \<or> (\<exists>pre post. cs = pre @ m @ post)"
    proof (cases pre)
      case Nil
      with eq show ?thesis by auto
    next
      case (Cons x pre')
      with eq have "cs = pre' @ m @ post" by simp
      then show ?thesis by blast
    qed
  next
    assume "(\<exists>post. c # cs = m @ post) \<or> (\<exists>pre post. cs = pre @ m @ post)"
    then show "\<exists>pre post. c # cs = pre @ m @ post"
    proof
      assume "\<exists>post. c # cs = m @ post"
      then obtain post where "c # cs = [] @ m @ post" by auto
      then show ?thesis by blast
    next
      assume "\<exists>pre post. cs = pre @ m @ post"
      then obtain pre post where "c # cs = (c # pre) @ m @ post" by auto
      then show ?thesis by blast
    qed
  qed
  with Cons show ?case by (simp add: startswith_iff)
qed

text \<open>
  Claim C7. \<open>OllamaProvider.supports_vision\<close> holds exactly when the lower-cased
  \<open>vision_model\<close> contains one of the family names \<open>llava\<close>, \<open>bakllava\<close>, \<open>moondream\<close> as a
  substring; so it holds for \<open>llava\<close> in any letter case and fails for \<open>llama3\<close>.
\<close>

theorem ollama_supports_vision_substring:
  assumes "kind p = Ollama"
  shows "(supports_vision p \<longleftrightarrow>
            (\<exists>m \<in> set [''llava'', ''bakllava'', ''moondream''].
               \<exists>pre post. lower (vision_model (config p)) = pre @ m @ post)) \<and>
         (lower (vision_model (config p)) = ''llava'' \<longrightarrow> supports_vision p) \<and>
         (vision_model (config p) = ''llama3'' \<longrightarrow> \<not> supports_vision p)"
proof -
  have sv: "supports_vision p \<longleftrightarrow>
      list_ex (\<lambda>m. str_in m (lower (vision_model (config p))))
        [''llava'', ''bakllava'', ''moondream'']"
    using assms by (simp add: supports_vision_def ollama_supports_vision_def any_in_def)
  have a: "supports_vision p \<longleftrightarrow>
            (\<exists>m \<in> set [''llava'', ''bakllava'', ''moondream''].
               \<exists>pre post. lower (vision_model (config p)) = pre @ m @ post)"
    unfolding sv list_ex_iff by (simp only: str_in_iff)
  have b: "lower (vision_model (config p)) = ''llava'' \<longrightarrow> supports_vision p"
    unfolding sv by simp
  have c: "vision_model (config p) = ''llama3'' \<longrightarrow> \<not> supports_vision p"
    unfolding sv by (simp add: lower_def lower_char_def capitals_def smalls_def)
  from a b c show ?thesis by blast
qed

theorem ollama_supports_vision_substring_witness:
  "supports_vision (new_provider Ollama (default_config\<lparr>vision_model := ''LLaVA:13b''\<rparr>)) \<and>
   supports_vision (new_provider Ollama (default_config\<lparr>vision_model := ''LlAvA''\<rparr>)) \<and>
   \<not> supports_vision (new_provider Ollama (default_config\<lparr>vision_model := ''llama3''\<rparr>))"
  using ollama_supports_vision_substring
      [of "new_provider Ollama (default_config\<lparr>vision_model := ''LLaVA:13b''\<rparr>)"]
    ollama_supports_vision_substring
      [of "new_provider Ollama (default_config\<lparr>vision_model := ''LlAvA''\<rparr>)"]
    ollama_supports_vision_substring
      [of "new_provider Ollama (default_config\<lparr>vision_model := ''llama3''\<rparr>)"]
  by (simp add: new_provider_def default_config_def lower_def lower_char_def capitals_def smalls_def
      supports_vision_def ollama_supports_vision_def any_in_def)

subsection \<open>A provider that may not retry\<close>

text \<open>
  Claim C10. \<open>__post_init__\<close> leaves \<open>max_retries\<close> as given, also when it is zero or
  negative. With such a config the retry loop never calls the wrapped function: it
  raises the aggregating error at once, with \<open>None\<close> in the place of the last exception,
  and leaves the world as it was. Hence \<open>chat\<close> and \<open>vision\<close> of every provider with such
  a config fail, whatever the surroundings answer.
\<close>

theorem no_retries_always_fails:
  assumes "max_retries c \<le> 0"
  shows "max_retries (post_init c) = max_retries c \<and>
         retry_with_backoff (post_init c) nm func w =
           (Inl (RuntimeError (''All '' @ str_int (max_retries c) @ '' retries failed for ''
                   @ nm @ '': None'')), w, []) \<and>
         (config p = post_init c \<longrightarrow>
            isl (fst (chat env p prompt system_prompt w')) \<and>
            isl (fst (vision env p image_data prompt image_format w')))"
proof -
  have mr: "max_retries (post_init c) = max_retries c"
    by (simp add: post_init_def Let_def)
  have loop: "retry_with_backoff (post_init c) nm func w =
      (Inl (RuntimeError (''All '' @ str_int (max_retries c) @ '' retries failed for ''
              @ nm @ '': None'')), w, [])"
    using assms by (simp add: retry_with_backoff_def retry_loop_exhausted mr)
  have calls: "isl (fst (chat env p prompt system_prompt w')) \<and>
      isl (fst (vision env p image_data prompt image_format w'))"
    if "config p = post_init c"
  proof -
    from that assms mr have le: "max_retries (config p) \<le> 0" by simp
    show ?thesis
      by (cases "kind p") (simp_all add: chat_def vision_def chat_fails [OF le]
          vision_fails [OF le])
  qed
  from mr loop calls show ?thesis by blast
qed

theorem no_retries_always_fails_witness:
  "max_retries (post_init (default_config\<lparr>max_retries := 0\<rparr>)) = 0 \<and>
   retry_with_backoff (post_init (default_config\<lparr>max_retries := 0\<rparr>)) ''openai''
       third_time_lucky 2 =
     (Inl (RuntimeError ''All 0 retries failed for openai: None''), 2, []) \<and>
   isl (fst (chat friendly_env
       (new_provider OpenAI (post_init (default_config\<lparr>max_retries := 0\<rparr>)))
       ''hello'' None empty_world))"
  using no_retries_always_fails [of "default_config\<lparr>max_retries := 0\<rparr>" "''openai''"
      third_time_lucky 2
      "new_provider OpenAI (post_init (default_config\<lparr>max_retries := 0\<rparr>))"
      friendly_env "''hello''" None empty_world]
  by (simp add: default_config_def new_provider_def str_int_def str_nat.simps digit_char_def)

subsection \<open>The factory\<close>





lemma map_of_PROVIDERS_None:
  "pn \<notin> {''qwen'', ''gemini'', ''openai'', ''anthropic'', ''ollama''} \<Longrightarrow>
     map_of PROVIDERS pn = None"
  by (simp add: PROVIDERS_def)

lemma available_providers:
  "join '', '' (map fst PROVIDERS) = ''qwen, gemini, openai, anthropic, ollama''"
  by (simp add: PROVIDERS_def)




lemma bare_host_load: "load_env_file bare_host None en = (Inr Map.empty, en)"
  by (simp add: load_env_file_def search_paths_def bare_host_def)



text \<open>
  Claim C5, as stated, fails: \<open>get_provider\<close> lower-cases the name before it looks it up,
  so \<open>QWEN\<close>, which is not one of the five registered names, resolves to the Qwen provider.
\<close>

theorem get_provider_unknown_name_counterexample:
  "''QWEN'' \<notin> {''qwen'', ''gemini'', ''openai'', ''anthropic'', ''ollama''} \<and>
   map_sum id kind
     (fst (get_provider bare_host Map.empty (Some ''QWEN'') None None None None no_kwargs))
     = Inr Qwen"
  by (simp add: get_provider_def bare_host_load Let_def lower_def lower_char_def capitals_def
      smalls_def PROVIDERS_def int_setting_def float_setting_def lookup2_def
      create_qwen_provider_def new_provider_def)

text \<open>
  Claim C5, amended. When the lower-case form of the provider name (the explicit argument,
  or else \<open>AI_PROVIDER\<close> from the environment or the \<open>.env\<close> file, or else \<open>qwen\<close>) is not
  one of the five registered names, \<open>get_provider\<close> constructs no provider: it raises
  \<open>ValueError\<close> with a message that gives the name and lists \<open>qwen, gemini, openai,
  anthropic, ollama\<close>; only an error of reading the \<open>.env\<close> file comes before it.
\<close>

theorem get_provider_unknown_name:
  assumes load: "load_env_file h env_file environ0 = (r, en)"
    and unknown: "\<forall>env_vars. r = Inr env_vars \<longrightarrow>
        lower (case provider_name of
                 Some n \<Rightarrow> n
               | None \<Rightarrow> (case lookup2 en env_vars ''AI_PROVIDER'' of
                            Some v \<Rightarrow> v | None \<Rightarrow> ''qwen''))
          \<notin> {''qwen'', ''gemini'', ''openai'', ''anthropic'', ''ollama''}"
  shows "get_provider h environ0 provider_name api_key_arg vision_model_arg language_model_arg
           env_file kw =
         (case r of
            Inl e \<Rightarrow> (Inl e, en)
          | Inr env_vars \<Rightarrow>
              (Inl (ValueError (''Unknown provider: ''
                 @ lower (case provider_name of
                            Some n \<Rightarrow> n
                          | None \<Rightarrow> (case lookup2 en env_vars ''AI_PROVIDER'' of
                                       Some v \<Rightarrow> v | None \<Rightarrow> ''qwen''))
                 @ ''. Available providers: qwen, gemini, openai, anthropic, ollama'')), en))"
proof (cases r)
  case (Inl e)
  with load show ?thesis by (simp add: get_provider_def)
next
  case (Inr env_vars)
  with unknown have "map_of PROVIDERS
      (lower (case provider_name of
                Some n \<Rightarrow> n
              | None \<Rightarrow> (case lookup2 en env_vars ''AI_PROVIDER'' of
                           Some v \<Rightarrow> v | None \<Rightarrow> ''qwen''))) = None"
    by (intro map_of_PROVIDERS_None) simp
  with load Inr show ?thesis
    by (simp add: get_provider_def Let_def available_providers)
qed

theorem get_provider_unknown_name_witness:
  "get_provider bare_host Map.empty (Some ''unknownvendor'') None None None None no_kwargs =
     (Inl (ValueError
        ''Unknown provider: unknownvendor. Available providers: qwen, gemini, openai, anthropic, ollama''),
      Map.empty)"
  using get_provider_unknown_name [OF bare_host_load [of Map.empty],
      where provider_name = "Some ''unknownvendor''"
        and api_key_arg = None and vision_model_arg = None and language_model_arg = None
        and kw = no_kwargs]
  by (simp add: lower_def lower_char_def capitals_def)



end
